theory Spec2Isabelle
  imports Complex_Main
begin

section \<open>Python values\<close>

text \<open>
  Exceptions of the Python program, as values. An exception raised by an external
  library (parselmouth, librosa, NLTK) carries its message.
\<close>

datatype exn =
    FileNotFoundError string
  | AttributeError string
  | KeyError string
  | TypeError
  | ValueError string
  | ZeroDivisionError
  | OverflowError
  | LibraryError string

text \<open>
  A Python \<open>float\<close>. The three non-finite values are kept apart, since the program
  tests for them (\<open>np.isnan\<close>) and \<open>isinstance(x, float)\<close> accepts them. A finite
  float is identified with the rational number it denotes, and arithmetic on finite
  floats is exact: rounding to 53 bits, overflow to infinity and the sign of zero are
  not modelled.
\<close>

datatype pyfloat = Fin rat | PInf | NInf | NaN

text \<open>A Python number: an unbounded \<open>int\<close> or a \<open>float\<close>.\<close>

datatype pynum = PInt int | PFloat pyfloat

text \<open>
  The values a metric mapping or a slot of a schema instance holds. A \<open>dict\<close> is an
  association list in insertion order; a Python dict has no repeated key.
\<close>

datatype pyval =
    VNone
  | VBool bool
  | VInt int
  | VFloat pyfloat
  | VStr string
  | VList "pyval list"
  | VDict "(string \<times> pyval) list"

text \<open>
  \<open>isinstance(v, (int, float))\<close>: the number that \<open>v\<close> is, if it is one. \<open>bool\<close> is
  a subclass of \<open>int\<close>, so \<open>True\<close> is the number 1 and \<open>False\<close> the number 0.
\<close>

fun num_of :: "pyval \<Rightarrow> pynum option" where
  "num_of (VBool b) = Some (PInt (if b then 1 else 0))"
| "num_of (VInt i) = Some (PInt i)"
| "num_of (VFloat f) = Some (PFloat f)"
| "num_of _ = None"

fun dict_of :: "pyval \<Rightarrow> (string \<times> pyval) list option" where
  "dict_of (VDict m) = Some m"
| "dict_of _ = None"

subsection \<open>Arithmetic\<close>

text \<open>
  Conversion of an \<open>int\<close> operand to \<open>float\<close> in mixed arithmetic. CPython raises
  OverflowError when the integer rounds to a magnitude beyond the largest double.
\<close>

definition int_to_float :: "int \<Rightarrow> exn + pyfloat" where
  "int_to_float i =
     (if \<bar>i\<bar> \<ge> 2 ^ 1024 - 2 ^ 970 then Inl OverflowError else Inr (Fin (of_int i)))"

fun fsub :: "pyfloat \<Rightarrow> pyfloat \<Rightarrow> pyfloat" where
  "fsub NaN _ = NaN"
| "fsub _ NaN = NaN"
| "fsub PInf PInf = NaN"
| "fsub NInf NInf = NaN"
| "fsub PInf _ = PInf"
| "fsub NInf _ = NInf"
| "fsub (Fin a) PInf = NInf"
| "fsub (Fin a) NInf = PInf"
| "fsub (Fin a) (Fin b) = Fin (a - b)"

text \<open>\<open>x - y\<close> on numbers.\<close>

fun py_sub :: "pynum \<Rightarrow> pynum \<Rightarrow> exn + pynum" where
  "py_sub (PInt a) (PInt b) = Inr (PInt (a - b))"
| "py_sub (PInt a) (PFloat g) =
     (case int_to_float a of Inl e \<Rightarrow> Inl e | Inr f \<Rightarrow> Inr (PFloat (fsub f g)))"
| "py_sub (PFloat f) (PInt b) =
     (case int_to_float b of Inl e \<Rightarrow> Inl e | Inr g \<Rightarrow> Inr (PFloat (fsub f g)))"
| "py_sub (PFloat f) (PFloat g) = Inr (PFloat (fsub f g))"

text \<open>
  \<open>x - v\<close> for a number \<open>x\<close> and any value \<open>v\<close>: a right operand that is not a
  number (None, a string, a list, a dict) raises TypeError.
\<close>

definition py_sub_val :: "pynum \<Rightarrow> pyval \<Rightarrow> exn + pynum" where
  "py_sub_val x v = (case num_of v of None \<Rightarrow> Inl TypeError | Some y \<Rightarrow> py_sub x y)"

text \<open>
  Rounding a rational to the nearest integer, ties to the even one, as Python's
  \<open>round\<close> does.
\<close>

definition round_half_even :: "rat \<Rightarrow> int" where
  "round_half_even q =
     (let n = \<lfloor>q\<rfloor>; r = q - of_int n in
      if r < 1 / 2 then n
      else if 1 / 2 < r then n + 1
      else if even n then n
      else n + 1)"

text \<open>\<open>round(x, d)\<close> for a float \<open>x\<close>: infinities and NaN are returned unchanged.\<close>

fun fround :: "nat \<Rightarrow> pyfloat \<Rightarrow> pyfloat" where
  "fround d (Fin q) = Fin (of_int (round_half_even (q * 10 ^ d)) / 10 ^ d)"
| "fround d f = f"

text \<open>\<open>round(x, d)\<close> for a number: an \<open>int\<close> is returned unchanged when \<open>d \<ge> 0\<close>.\<close>

fun py_round :: "nat \<Rightarrow> pynum \<Rightarrow> pynum" where
  "py_round d (PInt i) = PInt i"
| "py_round d (PFloat f) = PFloat (fround d f)"

fun fneg :: "pyfloat \<Rightarrow> pyfloat" where
  "fneg (Fin q) = Fin (- q)"
| "fneg PInf = NInf"
| "fneg NInf = PInf"
| "fneg NaN = NaN"

text \<open>Unary minus.\<close>

fun py_neg :: "pynum \<Rightarrow> pynum" where
  "py_neg (PInt i) = PInt (- i)"
| "py_neg (PFloat f) = PFloat (fneg f)"

text \<open>
  \<open>x == y\<close> on numbers: an \<open>int\<close> and a \<open>float\<close> are compared by value, and NaN is
  equal to nothing, itself included.
\<close>

fun py_eq :: "pynum \<Rightarrow> pynum \<Rightarrow> bool" where
  "py_eq (PInt a) (PInt b) = (a = b)"
| "py_eq (PInt a) (PFloat (Fin q)) = (of_int a = q)"
| "py_eq (PFloat (Fin q)) (PInt b) = (q = of_int b)"
| "py_eq (PFloat (Fin p)) (PFloat (Fin q)) = (p = q)"
| "py_eq (PFloat PInf) (PFloat PInf) = True"
| "py_eq (PFloat NInf) (PFloat NInf) = True"
| "py_eq _ _ = False"

text \<open>A number other than an infinity or NaN.\<close>

fun finite_num :: "pynum \<Rightarrow> bool" where
  "finite_num (PInt i) = True"
| "finite_num (PFloat (Fin q)) = True"
| "finite_num _ = False"

fun is_nan :: "pynum \<Rightarrow> bool" where
  "is_nan (PFloat NaN) = True"
| "is_nan _ = False"

section \<open>Strings\<close>

text \<open>
  A string is the list of its code points. The model covers the strings whose code
  points are below 256 (ASCII and the Latin-1 supplement), with the classes Unicode
  gives these code points: the letters are the ASCII letters, the ordinal indicators
  (170, 186), the micro sign (181) and 192 to 255 without the multiplication and
  division signs (215, 247); the capitals among them are A to Z and 192 to 222 without
  215, each 32 below its small letter.
\<close>

definition is_alpha_ch :: "char \<Rightarrow> bool" where
  "is_alpha_ch c =
     (let n = (of_char c :: nat) in
      (65 \<le> n \<and> n \<le> 90) \<or> (97 \<le> n \<and> n \<le> 122) \<or> n = 170 \<or> n = 181 \<or> n = 186 \<or>
      (192 \<le> n \<and> n \<le> 214) \<or> (216 \<le> n \<and> n \<le> 246) \<or> (248 \<le> n \<and> n \<le> 255))"

text \<open>\<open>c.isupper()\<close> for one character.\<close>

definition is_upper_ch :: "char \<Rightarrow> bool" where
  "is_upper_ch c =
     (let n = (of_char c :: nat) in
      (65 \<le> n \<and> n \<le> 90) \<or> (192 \<le> n \<and> n \<le> 214) \<or> (216 \<le> n \<and> n \<le> 222))"

text \<open>
  \<open>c.isalnum()\<close> for one character: a letter, a decimal digit, or one of the other
  numeric characters (superscript 1, 2, 3 and the three vulgar fractions).
\<close>

definition is_alnum_ch :: "char \<Rightarrow> bool" where
  "is_alnum_ch c =
     (let n = (of_char c :: nat) in
      is_alpha_ch c \<or> (48 \<le> n \<and> n \<le> 57) \<or> n = 178 \<or> n = 179 \<or> n = 185 \<or>
      (188 \<le> n \<and> n \<le> 190))"

text \<open>\<open>c.isspace()\<close> for one character.\<close>

definition is_space_ch :: "char \<Rightarrow> bool" where
  "is_space_ch c =
     (let n = (of_char c :: nat) in
      (9 \<le> n \<and> n \<le> 13) \<or> (28 \<le> n \<and> n \<le> 32) \<or> n = 133 \<or> n = 160)"

definition lower_ch :: "char \<Rightarrow> char" where
  "lower_ch c = (if is_upper_ch c then char_of ((of_char c :: nat) + 32) else c)"

text \<open>\<open>s.lower()\<close>, \<open>s.isalnum()\<close> (false on the empty string) and \<open>s.strip()\<close>.\<close>

definition py_lower :: "string \<Rightarrow> string" where
  "py_lower s = map lower_ch s"

definition py_isalnum :: "string \<Rightarrow> bool" where
  "py_isalnum s = (s \<noteq> [] \<and> list_all is_alnum_ch s)"

definition py_strip :: "string \<Rightarrow> string" where
  "py_strip s = rev (dropWhile is_space_ch (rev (dropWhile is_space_ch s)))"

text \<open>
  \<open>s.isidentifier()\<close>: a letter or an underscore, followed by letters, decimal digits,
  underscores and middle dots (183).
\<close>

definition is_identifier :: "string \<Rightarrow> bool" where
  "is_identifier s =
     (case s of
        [] \<Rightarrow> False
      | c # cs \<Rightarrow>
          (is_alpha_ch c \<or> c = CHR ''_'') \<and>
          list_all (\<lambda>d. is_alpha_ch d \<or> d = CHR ''_'' \<or> (of_char d :: nat) = 183 \<or>
                        (48 \<le> (of_char d :: nat) \<and> (of_char d :: nat) \<le> 57)) cs)"

text \<open>\<open>repr(s)\<close> for a string without quotes, backslashes or unprintable characters.\<close>

definition py_repr :: "string \<Rightarrow> string" where
  "py_repr s = [CHR 0x27] @ s @ [CHR 0x27]"

section \<open>Feature schemas\<close>

text \<open>
  A schema instance is a namedtuple: its fields in order, each with its value. The
  differential engine reads it through \<open>_fields\<close> and \<open>getattr\<close> only.
\<close>

type_synonym abstract = "(string \<times> pyval) list"

text \<open>A namedtuple type: its fields, and the defaults of its last fields.\<close>

record nt_type =
  nt_fields :: "string list"
  nt_defaults :: "pyval list"

definition KEYWORDS :: "string list" where
  "KEYWORDS = [''False'', ''None'', ''True'', ''and'', ''as'', ''assert'', ''async'',
     ''await'', ''break'', ''class'', ''continue'', ''def'', ''del'', ''elif'', ''else'',
     ''except'', ''finally'', ''for'', ''from'', ''global'', ''if'', ''import'', ''in'',
     ''is'', ''lambda'', ''nonlocal'', ''not'', ''or'', ''pass'', ''raise'', ''return'',
     ''try'', ''while'', ''with'', ''yield'']"

text \<open>
  The checks of \<open>collections.namedtuple(typename, field_names, defaults=...)\<close>, in its
  order: the type name and every field name is an identifier and no keyword; no field
  name starts with an underscore or occurs twice; there are no more defaults than
  fields. The first name that fails raises ValueError.
\<close>

fun check_names :: "string list \<Rightarrow> exn option" where
  "check_names [] = None"
| "check_names (name # names) =
     (if \<not> is_identifier name
      then Some (ValueError (''Type names and field names must be valid identifiers: '' @
                             py_repr name))
      else if name \<in> set KEYWORDS
      then Some (ValueError (''Type names and field names cannot be a keyword: '' @
                             py_repr name))
      else check_names names)"

fun check_fields :: "string list \<Rightarrow> string list \<Rightarrow> exn option" where
  "check_fields seen [] = None"
| "check_fields seen (name # names) =
     (if take 1 name = ''_''
      then Some (ValueError (''Field names cannot start with an underscore: '' @ py_repr name))
      else if name \<in> set seen
      then Some (ValueError (''Encountered duplicate field name: '' @ py_repr name))
      else check_fields (name # seen) names)"

definition namedtuple :: "string \<Rightarrow> string list \<Rightarrow> pyval list \<Rightarrow> exn + nt_type" where
  "namedtuple typename field_names defaults =
     (case check_names (typename # field_names) of
        Some e \<Rightarrow> Inl e
      | None \<Rightarrow>
          (case check_fields [] field_names of
             Some e \<Rightarrow> Inl e
           | None \<Rightarrow>
               if length field_names < length defaults then Inl TypeError
               else Inr \<lparr>nt_fields = field_names, nt_defaults = defaults\<rparr>))"

text \<open>
  A namedtuple type called with keyword arguments \<open>**kw\<close>: a keyword that is not a
  field raises TypeError; a field without a keyword takes its default, and raises
  TypeError when it has none.
\<close>

fun fill_fields :: "(string \<times> pyval option) list \<Rightarrow> (string \<times> pyval) list \<Rightarrow> exn + abstract" where
  "fill_fields [] kw = Inr []"
| "fill_fields ((f, dflt) # rest) kw =
     (case (case map_of kw f of Some v \<Rightarrow> Some v | None \<Rightarrow> dflt) of
        None \<Rightarrow> Inl TypeError
      | Some v \<Rightarrow>
          (case fill_fields rest kw of
             Inl e \<Rightarrow> Inl e
           | Inr inst \<Rightarrow> Inr ((f, v) # inst)))"

definition construct :: "nt_type \<Rightarrow> (string \<times> pyval) list \<Rightarrow> exn + abstract" where
  "construct t kw =
     (if list_all (\<lambda>k. k \<in> set (nt_fields t)) (map fst kw)
      then fill_fields
             (zip (nt_fields t)
                  (replicate (length (nt_fields t) - length (nt_defaults t)) None @
                   map Some (nt_defaults t)))
             kw
      else Inl TypeError)"

text \<open>
  The three declarations of the class \<open>Abstracts\<close>, as \<open>main.py\<close> writes them. The
  field names of \<open>TextAbstract\<close> have hyphens.
\<close>

definition audio_fields :: "string list" where
  "audio_fields = [''pitch'', ''rhythm'', ''timbre'', ''accent'', ''pronunciations'',
     ''intensity'', ''cords'', ''idiosyncrasies'', ''melody'']"

definition video_fields :: "string list" where
  "video_fields = []"

definition text_fields :: "string list" where
  "text_fields = [''vocabulary-diversity'', ''word-preferences'', ''slang-rate'',
     ''Idiom-preferences'', ''Contraction-rate'', ''capitalization-ratio'',
     ''stop-words-rate'', ''punctuation-frequency'', ''typos-rate'', ''emoji-rate'',
     ''salutation-rate'', ''quoting-style'', ''abbreviation-rate'']"

definition AudioAbstract_type :: "exn + nt_type" where
  "AudioAbstract_type = namedtuple ''AudioAbstract'' audio_fields (replicate 9 VNone)"

definition VideoAbstract_type :: "exn + nt_type" where
  "VideoAbstract_type = namedtuple ''VideoAbstract'' video_fields []"

definition TextAbstract_type :: "exn + nt_type" where
  "TextAbstract_type = namedtuple ''TextAbstract'' text_fields (replicate 13 VNone)"

text \<open>
  The constructors \<open>Abstracts.AudioAbstract(**kw)\<close>, \<open>Abstracts.VideoAbstract(**kw)\<close>
  and \<open>Abstracts.TextAbstract(**kw)\<close>: a declaration that raised gives no type to call,
  and its exception is what the use of the constructor ends with.
\<close>

definition AudioAbstract :: "(string \<times> pyval) list \<Rightarrow> exn + abstract" where
  "AudioAbstract kw = (case AudioAbstract_type of Inl e \<Rightarrow> Inl e | Inr t \<Rightarrow> construct t kw)"

definition VideoAbstract :: "(string \<times> pyval) list \<Rightarrow> exn + abstract" where
  "VideoAbstract kw = (case VideoAbstract_type of Inl e \<Rightarrow> Inl e | Inr t \<Rightarrow> construct t kw)"

definition TextAbstract :: "(string \<times> pyval) list \<Rightarrow> exn + abstract" where
  "TextAbstract kw = (case TextAbstract_type of Inl e \<Rightarrow> Inl e | Inr t \<Rightarrow> construct t kw)"

text \<open>An instance with every slot unset.\<close>

definition unset_abstract :: "string list \<Rightarrow> abstract" where
  "unset_abstract fs = map (\<lambda>f. (f, VNone)) fs"

section \<open>The differential engine\<close>

text \<open>An entry of a deviation mapping: a number, or a nested mapping of numbers.\<close>

datatype dval = DNum pynum | DNested "(string \<times> pynum) list"

type_synonym delta_map = "(string \<times> dval) list"

text \<open>
  The dict comprehension of the nested branch, over the items of \<open>c_val\<close> in order:
  \<open>{k: round(c_val[k] - b_val[k], 4) for k in c_val
        if isinstance(c_val[k], (int, float)) and k in b_val}\<close>.
\<close>

fun nested_delta :: "(string \<times> pyval) list \<Rightarrow> (string \<times> pyval) list \<Rightarrow> exn + (string \<times> pynum) list" where
  "nested_delta [] b_val = Inr []"
| "nested_delta ((k, cv) # c_val) b_val =
     (case num_of cv of
        None \<Rightarrow> nested_delta c_val b_val
      | Some x \<Rightarrow>
          (case map_of b_val k of
             None \<Rightarrow> nested_delta c_val b_val
           | Some bv \<Rightarrow>
               (case py_sub_val x bv of
                  Inl e \<Rightarrow> Inl e
                | Inr d \<Rightarrow>
                    (case nested_delta c_val b_val of
                       Inl e \<Rightarrow> Inl e
                     | Inr rest \<Rightarrow> Inr ((k, py_round 4 d) # rest)))))"

text \<open>
  The body of the loop \<open>for field in current._fields\<close>, for the values \<open>c_val\<close> and
  \<open>b_val\<close> of one field: the entry stored in \<open>delta\<close> for the field, if any. The
  numeric branch is tried first, then the branch of two dicts; otherwise no entry is
  stored.
\<close>

definition field_delta :: "pyval \<Rightarrow> pyval \<Rightarrow> exn + dval option" where
  "field_delta c_val b_val =
     (case (num_of c_val, num_of b_val) of
        (Some c, Some b) \<Rightarrow>
          (case py_sub c b of
             Inl e \<Rightarrow> Inl e
           | Inr d \<Rightarrow> Inr (Some (DNum (py_round 4 d))))
      | _ \<Rightarrow>
          (case (dict_of c_val, dict_of b_val) of
             (Some cm, Some bm) \<Rightarrow>
               (case nested_delta cm bm of
                  Inl e \<Rightarrow> Inl e
                | Inr m \<Rightarrow> Inr (Some (DNested m)))
           | _ \<Rightarrow> Inr None))"

text \<open>
  The loop itself, over the fields of \<open>current\<close> that are still to be visited.
  \<open>getattr(base, field)\<close> raises AttributeError when \<open>base\<close> has no such field.
\<close>

fun delta_loop :: "abstract \<Rightarrow> abstract \<Rightarrow> exn + delta_map" where
  "delta_loop [] base = Inr []"
| "delta_loop ((field, c_val) # current) base =
     (case map_of base field of
        None \<Rightarrow> Inl (AttributeError field)
      | Some b_val \<Rightarrow>
          (case field_delta c_val b_val of
             Inl e \<Rightarrow> Inl e
           | Inr entry \<Rightarrow>
               (case delta_loop current base of
                  Inl e \<Rightarrow> Inl e
                | Inr rest \<Rightarrow>
                    Inr (case entry of None \<Rightarrow> rest | Some v \<Rightarrow> (field, v) # rest))))"

text \<open>
  \<open>DifferentialEngine.compute_delta\<close>. An argument is None or a namedtuple; the
  namedtuple with no field (\<open>VideoAbstract()\<close>) is an empty tuple and so is falsy.
\<close>

definition compute_delta :: "abstract option \<Rightarrow> abstract option \<Rightarrow> exn + delta_map" where
  "compute_delta current base =
     (case current of
        None \<Rightarrow> Inr []
      | Some c \<Rightarrow>
          if c = [] then Inr []
          else (case base of
                  None \<Rightarrow> Inr []
                | Some b \<Rightarrow> if b = [] then Inr [] else delta_loop c b))"

section \<open>Text utilities\<close>

text \<open>
  \<open>len(re.findall(re.escape(pat), s))\<close> for a pattern that is not empty: the matches
  of the literal \<open>pat\<close> in \<open>s\<close>, found from left to right without overlap. \<open>skip\<close>
  counts the characters of \<open>s\<close> that the last match still covers.
\<close>

fun count_literal :: "string \<Rightarrow> nat \<Rightarrow> string \<Rightarrow> nat" where
  "count_literal pat skip [] = 0"
| "count_literal pat skip (c # s) =
     (if 0 < skip then count_literal pat (skip - 1) s
      else if take (length pat) (c # s) = pat then 1 + count_literal pat (length pat - 1) s
      else count_literal pat 0 s)"

text \<open>
  \<open>len(re.findall(r'[^\x00-\x7F]+', s))\<close>: the maximal runs of characters outside
  ASCII. \<open>inside\<close> says that the previous character belongs to a run.
\<close>

fun count_non_ascii_runs :: "bool \<Rightarrow> string \<Rightarrow> nat" where
  "count_non_ascii_runs inside [] = 0"
| "count_non_ascii_runs inside (c # s) =
     (if 127 < (of_char c :: nat)
      then (if inside then 0 else 1) + count_non_ascii_runs True s
      else count_non_ascii_runs False s)"

text \<open>
  \<open>collections.Counter(xs)\<close>: each distinct element with the number of its
  occurrences, in the order of first occurrence.
\<close>

fun counter_add :: "'a \<Rightarrow> ('a \<times> nat) list \<Rightarrow> ('a \<times> nat) list" where
  "counter_add x [] = [(x, 1)]"
| "counter_add x ((k, c) # rest) =
     (if k = x then (k, c + 1) # rest else (k, c) # counter_add x rest)"

definition counter :: "'a list \<Rightarrow> ('a \<times> nat) list" where
  "counter xs = foldl (\<lambda>acc x. counter_add x acc) [] xs"

text \<open>
  \<open>Counter.most_common(n)\<close>: the \<open>n\<close> entries with the largest counts, largest first;
  entries with equal counts stay in the order of first occurrence.
\<close>

fun insert_by_count :: "('a \<times> nat) \<Rightarrow> ('a \<times> nat) list \<Rightarrow> ('a \<times> nat) list" where
  "insert_by_count p [] = [p]"
| "insert_by_count p (q # rest) =
     (if snd p < snd q then q # insert_by_count p rest else p # q # rest)"

definition most_common :: "nat \<Rightarrow> ('a \<times> nat) list \<Rightarrow> ('a \<times> nat) list" where
  "most_common n items = take n (foldr insert_by_count items [])"

text \<open>True division of two counts, with a divisor that is not zero: a float.\<close>

definition ratio :: "nat \<Rightarrow> nat \<Rightarrow> pyfloat" where
  "ratio a b = Fin (of_nat a / of_nat b)"

section \<open>The text analyser\<close>

text \<open>
  What the text analyser takes from outside the repository: the NLTK tokenizer and
  stop word list, the lines of the whitelist file \<open>./WhiteList.dict\<close> (None when the
  file does not exist), the spell checker (\<open>SpellChecker().unknown\<close> and membership
  in its dictionary) and \<open>fuzz.ratio\<close>.
\<close>

record text_env =
  word_tokenize :: "string \<Rightarrow> string list"
  stop_words :: "string list"
  whitelist_file :: "string list option"
  spell_unknown :: "string list \<Rightarrow> string list"
  spell_known :: "string \<Rightarrow> bool"
  fuzz_ratio :: "string \<Rightarrow> string \<Rightarrow> nat"

definition CONTRACTIONS :: "string list" where
  "CONTRACTIONS = [''i'' @ [CHR 0x27] @ ''m'', ''you'' @ [CHR 0x27] @ ''re'',
     ''he'' @ [CHR 0x27] @ ''s'', ''she'' @ [CHR 0x27] @ ''s'', ''it'' @ [CHR 0x27] @ ''s'',
     ''we'' @ [CHR 0x27] @ ''re'', ''they'' @ [CHR 0x27] @ ''re'', ''isn'' @ [CHR 0x27] @ ''t'',
     ''aren'' @ [CHR 0x27] @ ''t'', ''don'' @ [CHR 0x27] @ ''t'', ''doesn'' @ [CHR 0x27] @ ''t'',
     ''can'' @ [CHR 0x27] @ ''t'', ''won'' @ [CHR 0x27] @ ''t'']"

definition SLANG :: "string list" where
  "SLANG = [''lol'', ''omg'', ''imo'', ''tldr'', ''fomo'', ''yolo'', ''tbh'', ''ikr'',
     ''vibe'', ''btw'']"

definition IDIOMS :: "string list" where
  "IDIOMS = [''piece of cake'', ''break a leg'', ''spill the beans'', ''bite the bullet'',
     ''cost an arm and a leg'']"

definition PHONETIC_TARGETS :: "string list" where
  "PHONETIC_TARGETS = [''you'', ''are'', ''see'', ''night'', ''great'', ''later'', ''for'',
     ''be'']"

definition PUNC_CHARS :: "string" where
  "PUNC_CHARS = [CHR 0x21, CHR 0x22, CHR 0x23, CHR 0x24, CHR 0x25, CHR 0x26, CHR 0x27,
     CHR 0x28, CHR 0x29, CHR 0x2A, CHR 0x2B, CHR 0x2C, CHR 0x2D, CHR 0x2E, CHR 0x2F,
     CHR 0x3A, CHR 0x3B, CHR 0x3C, CHR 0x3D, CHR 0x3E, CHR 0x3F, CHR 0x40,
     CHR 0x5B, CHR 0x5C, CHR 0x5D, CHR 0x5E, CHR 0x5F, CHR 0x60,
     CHR 0x7B, CHR 0x7C, CHR 0x7D, CHR 0x7E]"

definition SALUTATIONS :: "string list" where
  "SALUTATIONS = [''hello'', ''hi'', ''dear'', ''regards'', ''hey'']"

text \<open>The state of a text \<open>Analyser\<close> after \<open>__init__\<close>.\<close>

record analyser =
  raw :: string
  text_lower :: string
  whitelist :: "string list"
  words :: "string list"
  word_count :: nat
  char_count :: nat

definition load_whitelist :: "text_env \<Rightarrow> string list" where
  "load_whitelist env =
     (case whitelist_file env of
        None \<Rightarrow> []
      | Some lines \<Rightarrow> map (\<lambda>l. py_lower (py_strip l)) (filter (\<lambda>l. py_strip l \<noteq> []) lines))"

definition Analyser_init :: "text_env \<Rightarrow> string \<Rightarrow> analyser" where
  "Analyser_init env text =
     (let ws = filter py_isalnum (word_tokenize env (py_lower text)) in
      \<lparr>raw = text, text_lower = py_lower text, whitelist = load_whitelist env,
       words = ws, word_count = length ws, char_count = length text\<rparr>)"

definition get_diversity :: "analyser \<Rightarrow> pyfloat" where
  "get_diversity a =
     (if 0 < word_count a then ratio (length (remdups (words a))) (word_count a) else Fin 0)"

definition get_prefs :: "text_env \<Rightarrow> analyser \<Rightarrow> (string \<times> pyval) list" where
  "get_prefs env a =
     (let meaningful = filter (\<lambda>w. w \<notin> set (stop_words env)) (words a);
          counts = most_common 3 (counter meaningful)
      in if 0 < word_count a
         then map (\<lambda>(w, c). (w, VFloat (ratio c (word_count a)))) counts
         else [])"

definition get_slang_rate :: "analyser \<Rightarrow> pyfloat" where
  "get_slang_rate a =
     (if 0 < word_count a
      then ratio (length (filter (\<lambda>w. w \<in> set SLANG) (words a))) (word_count a)
      else Fin 0)"

definition get_idiom_rate :: "analyser \<Rightarrow> pyfloat" where
  "get_idiom_rate a =
     (let count = sum_list (map (\<lambda>i. count_literal i 0 (text_lower a)) IDIOMS)
      in if 0 < word_count a then ratio count (word_count a) else Fin 0)"

definition get_contraction_rate :: "analyser \<Rightarrow> pyfloat" where
  "get_contraction_rate a =
     (if 0 < word_count a
      then ratio (length (filter (\<lambda>w. w \<in> set CONTRACTIONS) (words a))) (word_count a)
      else Fin 0)"

definition get_cap_ratio :: "analyser \<Rightarrow> pyfloat" where
  "get_cap_ratio a =
     (if 0 < char_count a
      then ratio (length (filter is_upper_ch (raw a))) (char_count a)
      else Fin 0)"

definition get_stop_rate :: "text_env \<Rightarrow> analyser \<Rightarrow> pyfloat" where
  "get_stop_rate env a =
     (if 0 < word_count a
      then ratio (length (filter (\<lambda>w. w \<in> set (stop_words env)) (words a))) (word_count a)
      else Fin 0)"

definition get_punc_freq :: "analyser \<Rightarrow> (string \<times> pyval) list" where
  "get_punc_freq a =
     (let counts = counter (filter (\<lambda>c. c \<in> set PUNC_CHARS) (raw a))
      in if 0 < char_count a
         then map (\<lambda>(p, c). ([p], VFloat (ratio c (char_count a)))) counts
         else [])"

definition get_typos_rate :: "text_env \<Rightarrow> analyser \<Rightarrow> pyfloat" where
  "get_typos_rate env a =
     (if word_count a = 0 then Fin 0
      else let unknown = spell_unknown env (words a);
               actual_typos = filter (\<lambda>w. w \<notin> set (whitelist a)) unknown
           in ratio (length actual_typos) (word_count a))"

definition get_emoji_rate :: "analyser \<Rightarrow> pyfloat" where
  "get_emoji_rate a =
     (if 0 < char_count a
      then ratio (count_non_ascii_runs False (raw a)) (char_count a)
      else Fin 0)"

definition get_salutation_rate :: "analyser \<Rightarrow> pyfloat" where
  "get_salutation_rate a =
     (case words a of
        [] \<Rightarrow> Fin 0
      | w # _ \<Rightarrow> if w \<in> set SALUTATIONS then Fin 1 else Fin 0)"

definition get_quoting_style :: "analyser \<Rightarrow> string" where
  "get_quoting_style a =
     (let s = length (filter (\<lambda>c. c = CHR 0x27) (raw a));
          d = length (filter (\<lambda>c. c = CHR 0x22) (raw a))
      in if d < s then ''single-quotes''
         else if s < d then ''double-quotes''
         else ''none/mixed'')"

definition get_abbreviation_rate :: "text_env \<Rightarrow> analyser \<Rightarrow> pyfloat" where
  "get_abbreviation_rate env a =
     (if word_count a = 0 then Fin 0
      else let abbr_count = length (filter (\<lambda>w. w \<in> set (whitelist a)) (words a));
               phonetic = length (filter (\<lambda>w. w \<notin> set (whitelist a) \<and> length w \<le> 3 \<and>
                   \<not> spell_known env w \<and>
                   list_ex (\<lambda>target. 70 < fuzz_ratio env w target) PHONETIC_TARGETS) (words a))
           in ratio (abbr_count + phonetic) (word_count a))"

text \<open>\<open>Analyser.get_diagnostics\<close>: the metric mapping of the text.\<close>

definition get_diagnostics :: "text_env \<Rightarrow> analyser \<Rightarrow> (string \<times> pyval) list" where
  "get_diagnostics env a =
     (if words a = [] \<and> raw a = [] then map (\<lambda>k. (k, VNone)) text_fields
      else [(''vocabulary-diversity'', VFloat (get_diversity a)),
            (''word-preferences'', VDict (get_prefs env a)),
            (''slang-rate'', VFloat (get_slang_rate a)),
            (''Idiom-preferences'', VFloat (get_idiom_rate a)),
            (''Contraction-rate'', VFloat (get_contraction_rate a)),
            (''capitalization-ratio'', VFloat (get_cap_ratio a)),
            (''stop-words-rate'', VFloat (get_stop_rate env a)),
            (''punctuation-frequency'', VDict (get_punc_freq a)),
            (''typos-rate'', VFloat (get_typos_rate env a)),
            (''emoji-rate'', VFloat (get_emoji_rate a)),
            (''salutation-rate'', VFloat (get_salutation_rate a)),
            (''quoting-style'', VStr (get_quoting_style a)),
            (''abbreviation-rate'', VFloat (get_abbreviation_rate env a))])"

section \<open>The audio analyser\<close>

text \<open>
  What the signal-processing libraries measure on a loaded sound before the result
  mapping is built: the pitch statistics, the MFCC means, jitter and shimmer, the number
  of intensity peaks and the total duration.
\<close>

record core_measures =
  f0_mean :: pyfloat
  f0_std :: pyfloat
  mfcc_mean :: "pyfloat list"
  jitter :: pyfloat
  shimmer :: pyfloat
  peaks :: nat
  duration :: pyfloat

text \<open>
  What the audio analyser takes from outside the repository: \<open>os.path.exists\<close>,
  \<open>parselmouth.Sound\<close> (which may raise), the measurements above (any of the library
  calls may raise) and the two intensity statistics that are read while the result
  mapping is built (mean and maximum, which may raise too).
\<close>

record 'snd audio_env =
  path_exists :: "string \<Rightarrow> bool"
  load_sound :: "string \<Rightarrow> exn + 'snd"
  dsp_core :: "'snd \<Rightarrow> exn + core_measures"
  dsp_intensity :: "'snd \<Rightarrow> exn + pyfloat \<times> pyfloat"

text \<open>
  The state of an audio \<open>Analyser\<close> after \<open>__init__\<close>: \<open>self.audio_path\<close> and
  \<open>self.sound\<close>.
\<close>

record 'snd audio_analyser =
  source_path :: string
  sound :: 'snd

definition AudioAnalyser_init :: "'snd audio_env \<Rightarrow> string \<Rightarrow> exn + 'snd audio_analyser" where
  "AudioAnalyser_init env path =
     (if \<not> path_exists env path
      then Inl (FileNotFoundError (''Source signal not found at '' @ path))
      else (case load_sound env path of
              Inl e \<Rightarrow> Inl e
            | Inr s \<Rightarrow> Inr \<lparr>source_path = path, sound = s\<rparr>))"

text \<open>
  \<open>str(e)\<close> for an exception \<open>e\<close>. The body of \<open>get_analysis\<close> raises only
  ZeroDivisionError and the exceptions of the libraries; no other text is used.
\<close>

fun exn_str :: "exn \<Rightarrow> string" where
  "exn_str (FileNotFoundError m) = m"
| "exn_str (AttributeError m) = m"
| "exn_str (KeyError m) = [CHR 0x27] @ m @ [CHR 0x27]"
| "exn_str TypeError = ''unsupported operand type(s)''"
| "exn_str (ValueError m) = m"
| "exn_str ZeroDivisionError = ''float division by zero''"
| "exn_str OverflowError = ''int too large to convert to float''"
| "exn_str (LibraryError m) = m"

fun is_nan_f :: "pyfloat \<Rightarrow> bool" where
  "is_nan_f NaN = True"
| "is_nan_f _ = False"

text \<open>\<open>round(float(x), d) if not np.isnan(x) else None\<close>.\<close>

definition round_unless_nan :: "nat \<Rightarrow> pyfloat \<Rightarrow> pyval" where
  "round_unless_nan d x = (if is_nan_f x then VNone else VFloat (fround d x))"

text \<open>\<open>n / x\<close> for a count \<open>n\<close> and a float \<open>x\<close>: a zero divisor raises.\<close>

fun div_by_float :: "nat \<Rightarrow> pyfloat \<Rightarrow> exn + pyfloat" where
  "div_by_float n (Fin q) = (if q = 0 then Inl ZeroDivisionError else Inr (Fin (of_nat n / q)))"
| "div_by_float n NaN = Inr NaN"
| "div_by_float n _ = Inr (Fin 0)"

text \<open>\<open>x * 100\<close> for a float \<open>x\<close>.\<close>

fun times_100 :: "pyfloat \<Rightarrow> pyfloat" where
  "times_100 (Fin q) = Fin (q * 100)"
| "times_100 f = f"

text \<open>
  The body of the \<open>try\<close> block of \<open>Analyser.get_analysis\<close>, in the order of the source:
  the measurements, then the result mapping entry by entry.
\<close>

definition analysis_body :: "'snd audio_env \<Rightarrow> 'snd audio_analyser \<Rightarrow> exn + (string \<times> pyval) list" where
  "analysis_body env a =
     (case dsp_core env (sound a) of
        Inl e \<Rightarrow> Inl e
      | Inr m \<Rightarrow>
          (case div_by_float (peaks m) (duration m) of
             Inl e \<Rightarrow> Inl e
           | Inr rate \<Rightarrow>
               (case dsp_intensity env (sound a) of
                  Inl e \<Rightarrow> Inl e
                | Inr (mean_db, max_db) \<Rightarrow>
                    Inr [(''pitch'', VDict [(''mean_f0_hz'', round_unless_nan 2 (f0_mean m)),
                                           (''stdev_f0_hz'', round_unless_nan 2 (f0_std m))]),
                         (''rhythm'', VDict [(''syllabic_rate_proxy'', VFloat (fround 2 rate)),
                                            (''total_duration_sec'', VFloat (fround 2 (duration m)))]),
                         (''timbre'', VDict [(''spectral_centroid_vectors'',
                                             VList (map (\<lambda>x. VFloat (fround 3 x)) (mfcc_mean m)))]),
                         (''accent'', VStr ''HEURISTIC_REQUIRED: Requires linguistic phoneme distribution model.''),
                         (''pronunciations'', VStr ''ASR_REQUIRED: Requires acoustic-to-text alignment model.''),
                         (''intensity'', VDict [(''mean_db'', VFloat (fround 2 mean_db)),
                                               (''max_db'', VFloat (fround 2 max_db))]),
                         (''idiosyncrasies'',
                            VDict [(''jitter_local_pct'',
                                      (if is_nan_f (jitter m) then VNone
                                       else VFloat (fround 4 (times_100 (jitter m))))),
                                   (''shimmer_local_pct'',
                                      (if is_nan_f (shimmer m) then VNone
                                       else VFloat (fround 4 (times_100 (shimmer m)))))])])))"

text \<open>
  \<open>Analyser.get_analysis\<close>: every exception of the body is caught and turned into the
  single-key error mapping.
\<close>

definition get_analysis :: "'snd audio_env \<Rightarrow> 'snd audio_analyser \<Rightarrow> (string \<times> pyval) list" where
  "get_analysis env a =
     (case analysis_body env a of
        Inl e \<Rightarrow> [(''error'', VStr (exn_str e))]
      | Inr result \<Rightarrow> result)"

section \<open>JSON serialisation of the deviation summary\<close>

fun digits_of :: "nat \<Rightarrow> string" where
  "digits_of n =
     (if n < 10 then [char_of (48 + n)] else digits_of (n div 10) @ [char_of (48 + n mod 10)])"

definition int_repr :: "int \<Rightarrow> string" where
  "int_repr i = (if i < 0 then ''-'' @ digits_of (nat (- i)) else digits_of (nat i))"

definition hex_digit :: "nat \<Rightarrow> char" where
  "hex_digit n = (if n < 10 then char_of (48 + n) else char_of (87 + n))"

text \<open>
  The escaping of one character by \<open>json.dumps\<close> (with its default \<open>ensure_ascii\<close>):
  the quote, the backslash and the control characters with a short form, then
  \<open>\uXXXX\<close> for every other character outside the printable ASCII range.
\<close>

definition json_escape :: "char \<Rightarrow> string" where
  "json_escape c =
     (let n = (of_char c :: nat) in
      if n = 0x22 then [CHR 0x5C, CHR 0x22]
      else if n = 0x5C then [CHR 0x5C, CHR 0x5C]
      else if n = 0x0A then [CHR 0x5C, CHR ''n'']
      else if n = 0x0D then [CHR 0x5C, CHR ''r'']
      else if n = 0x09 then [CHR 0x5C, CHR ''t'']
      else if n = 0x0C then [CHR 0x5C, CHR ''f'']
      else if n = 0x08 then [CHR 0x5C, CHR ''b'']
      else if 32 \<le> n \<and> n \<le> 126 then [c]
      else [CHR 0x5C, CHR ''u'', CHR ''0'', CHR ''0'', hex_digit (n div 16), hex_digit (n mod 16)])"

definition json_str :: "string \<Rightarrow> string" where
  "json_str s = [CHR 0x22] @ concat (map json_escape s) @ [CHR 0x22]"

text \<open>
  A number as \<open>json.dumps\<close> writes it. The text of a finite float is that of
  \<open>float.__repr__\<close>, taken as a parameter.
\<close>

fun json_num :: "(rat \<Rightarrow> string) \<Rightarrow> pynum \<Rightarrow> string" where
  "json_num float_repr (PInt i) = int_repr i"
| "json_num float_repr (PFloat (Fin q)) = float_repr q"
| "json_num float_repr (PFloat NaN) = ''NaN''"
| "json_num float_repr (PFloat PInf) = ''Infinity''"
| "json_num float_repr (PFloat NInf) = ''-Infinity''"

fun join_sep :: "string \<Rightarrow> string list \<Rightarrow> string" where
  "join_sep sep [] = []"
| "join_sep sep [x] = x"
| "join_sep sep (x # y # rest) = x @ sep @ join_sep sep (y # rest)"

text \<open>A dict, with the default separators \<open>', '\<close> and \<open>': '\<close>.\<close>

definition json_dict :: "('v \<Rightarrow> string) \<Rightarrow> (string \<times> 'v) list \<Rightarrow> string" where
  "json_dict render items =
     ''{'' @ join_sep '', '' (map (\<lambda>(k, v). json_str k @ '': '' @ render v) items) @ ''}''"

fun json_dval :: "(rat \<Rightarrow> string) \<Rightarrow> dval \<Rightarrow> string" where
  "json_dval float_repr (DNum x) = json_num float_repr x"
| "json_dval float_repr (DNested m) = json_dict (json_num float_repr) m"

definition json_dumps :: "(rat \<Rightarrow> string) \<Rightarrow> (string \<times> delta_map) list \<Rightarrow> string" where
  "json_dumps float_repr delta_a = json_dict (json_dict (json_dval float_repr)) delta_a"

section \<open>The token assembler\<close>

record EToken =
  logical_schema :: string
  emotion_schema :: string
  base_abstract :: "(string \<times> abstract option) list"
  current_abstract :: "(string \<times> abstract option) list"

text \<open>
  What \<open>extract_etoken\<close> takes from outside \<open>main.py\<close>: the call
  \<open>TextAnalyser(text).get_analysis()\<close> (the text \<open>Analyser\<close> class of the repository
  defines \<open>get_diagnostics\<close> and no method \<open>get_analysis\<close>, so what the call returns or
  raises is a parameter), the audio environment, and the text of a float in JSON.
\<close>

record 'snd env =
  text_get_analysis :: "string \<Rightarrow> exn + (string \<times> pyval) list"
  audio :: "'snd audio_env"
  float_repr :: "rat \<Rightarrow> string"

text \<open>
  The baseline used when none is supplied: the dict literal
  \<open>{"text": Abstracts.TextAbstract(), "audio": Abstracts.AudioAbstract(),
    "video": Abstracts.VideoAbstract()}\<close>, whose values are built in this order.
\<close>

definition default_base :: "exn + (string \<times> abstract option) list" where
  "default_base =
     (case TextAbstract [] of
        Inl e \<Rightarrow> Inl e
      | Inr t \<Rightarrow>
          (case AudioAbstract [] of
             Inl e \<Rightarrow> Inl e
           | Inr a \<Rightarrow>
               (case VideoAbstract [] of
                  Inl e \<Rightarrow> Inl e
                | Inr v \<Rightarrow> Inr [(''text'', Some t), (''audio'', Some a), (''video'', Some v)])))"

text \<open>The truth value of an optional string argument: None and \<open>''\<close> are falsy.\<close>

fun truthy :: "string option \<Rightarrow> bool" where
  "truthy None = False"
| "truthy (Some s) = (s \<noteq> [])"

text \<open>\<open>d[k]\<close> on a dict: KeyError when the key is missing.\<close>

definition dict_get :: "(string \<times> 'v) list \<Rightarrow> string \<Rightarrow> exn + 'v" where
  "dict_get d k = (case map_of d k of None \<Rightarrow> Inl (KeyError k) | Some v \<Rightarrow> Inr v)"

text \<open>Step 2 for the text: \<open>TextAbstract(**TextAnalyser(text).get_analysis()) if text else None\<close>.\<close>

definition current_text :: "'snd env \<Rightarrow> string option \<Rightarrow> exn + abstract option" where
  "current_text env text =
     (case text of
        None \<Rightarrow> Inr None
      | Some t \<Rightarrow>
          if t = [] then Inr None
          else (case text_get_analysis env t of
                  Inl e \<Rightarrow> Inl e
                | Inr raw_text \<Rightarrow>
                    (case TextAbstract raw_text of
                       Inl e \<Rightarrow> Inl e
                     | Inr inst \<Rightarrow> Inr (Some inst))))"

text \<open>
  Step 2 for the audio: the analyser is built and run, its mapping is filtered to the
  fields of \<open>AudioAbstract\<close>, and the instance is built from what is left.
\<close>

definition current_audio :: "'snd env \<Rightarrow> string option \<Rightarrow> exn + abstract option" where
  "current_audio env path =
     (case path of
        None \<Rightarrow> Inr None
      | Some p \<Rightarrow>
          if p = [] then Inr None
          else (case AudioAnalyser_init (audio env) p of
                  Inl e \<Rightarrow> Inl e
                | Inr an \<Rightarrow>
                    (let raw_audio = get_analysis (audio env) an;
                         filtered = filter (\<lambda>(k, v). k \<in> set audio_fields) raw_audio
                     in case AudioAbstract filtered of
                          Inl e \<Rightarrow> Inl e
                        | Inr inst \<Rightarrow> Inr (Some inst))))"

text \<open>Step 1: \<open>base_profiles or {...}\<close>. None and the empty dict are both falsy.\<close>

definition resolve_base ::
  "(string \<times> abstract option) list option \<Rightarrow> exn + (string \<times> abstract option) list" where
  "resolve_base base_profiles =
     (case base_profiles of
        None \<Rightarrow> default_base
      | Some b \<Rightarrow> if b = [] then default_base else Inr b)"

text \<open>
  \<open>extract_etoken\<close>. The argument \<open>video_path\<close> is not read, and the video
  analyser that \<open>main.py\<close> imports is not used.
\<close>

definition extract_etoken ::
  "'snd env \<Rightarrow> string option \<Rightarrow> string option \<Rightarrow> string option \<Rightarrow>
     (string \<times> abstract option) list option \<Rightarrow> exn + EToken" where
  "extract_etoken env text audio_path video_path base_profiles =
     (case resolve_base base_profiles of
           Inl e \<Rightarrow> Inl e
         | Inr base \<Rightarrow>
      (case current_text env text of
           Inl e \<Rightarrow> Inl e
         | Inr curr_text \<Rightarrow>
      (case current_audio env audio_path of
           Inl e \<Rightarrow> Inl e
         | Inr curr_audio \<Rightarrow>
      (case dict_get base ''text'' of
           Inl e \<Rightarrow> Inl e
         | Inr base_text \<Rightarrow>
      (case compute_delta curr_text base_text of
           Inl e \<Rightarrow> Inl e
         | Inr text_deviation \<Rightarrow>
      (case dict_get base ''audio'' of
           Inl e \<Rightarrow> Inl e
         | Inr base_audio \<Rightarrow>
      (case compute_delta curr_audio base_audio of
           Inl e \<Rightarrow> Inl e
         | Inr audio_deviation \<Rightarrow>
      (let delta_a = [(''text_deviation'', text_deviation),
                      (''audio_deviation'', audio_deviation)];
           logical = (case text of None \<Rightarrow> [] | Some t \<Rightarrow> t);
           delta_prefix = ''[DELTA_A: '' @ json_dumps (float_repr env) delta_a @ '']'';
           emotion = (case text of
                        None \<Rightarrow> delta_prefix
                      | Some t \<Rightarrow> if t = [] then delta_prefix else delta_prefix @ '' '' @ t)
       in Inr \<lparr>logical_schema = logical, emotion_schema = emotion,
                base_abstract = base,
                current_abstract = [(''text'', curr_text), (''audio'', curr_audio)]\<rparr>))))))))"

section \<open>Well-formed instances and example inputs\<close>

text \<open>
  What every namedtuple and every Python dict satisfies: no field and no key occurs
  twice. For an instance this covers its fields and the keys of each dict it holds.
\<close>

definition wf_abstract :: "abstract \<Rightarrow> bool" where
  "wf_abstract X =
     (distinct (map fst X) \<and>
      list_all (\<lambda>v. case v of VDict m \<Rightarrow> distinct (map fst m) | _ \<Rightarrow> True) (map snd X))"

text \<open>
  \<open>AudioAbstract(cords=float('inf'))\<close>, and two instances that differ in the pitch
  mapping and in a scalar slot: \<open>AudioAbstract(pitch={'mean_f0_hz': 195.5}, cords=2)\<close>
  and \<open>AudioAbstract(pitch={'mean_f0_hz': 180.0}, cords=5)\<close>.
\<close>

definition inf_cords :: abstract where
  "inf_cords = map (\<lambda>f. (f, if f = ''cords'' then VFloat PInf else VNone)) audio_fields"

definition current_sample :: abstract where
  "current_sample =
     map (\<lambda>f. (f, if f = ''pitch'' then VDict [(''mean_f0_hz'', VFloat (Fin (391 / 2)))]
                    else if f = ''cords'' then VInt 2 else VNone)) audio_fields"

definition baseline_sample :: abstract where
  "baseline_sample =
     map (\<lambda>f. (f, if f = ''pitch'' then VDict [(''mean_f0_hz'', VFloat (Fin 180))]
                    else if f = ''cords'' then VInt 5 else VNone)) audio_fields"

text \<open>
  \<open>AudioAbstract(pitch={'mean_f0_hz': 195.5, 'stdev_f0_hz': float('-inf')}, cords=2,
    melody=float('nan'))\<close>: finite and other numbers, in slots and under keys.
\<close>

definition mixed_sample :: abstract where
  "mixed_sample =
     map (\<lambda>f. (f, if f = ''pitch''
                    then VDict [(''mean_f0_hz'', VFloat (Fin (391 / 2))),
                                (''stdev_f0_hz'', VFloat NInf)]
                    else if f = ''cords'' then VInt 2
                    else if f = ''melody'' then VFloat NaN else VNone)) audio_fields"

text \<open>What the declaration of \<open>TextAbstract\<close> raises.\<close>

definition text_decl_error :: exn where
  "text_decl_error =
     ValueError (''Type names and field names must be valid identifiers: '' @
                 py_repr ''vocabulary-diversity'')"

text \<open>
  A baseline a caller supplies, with no text instance:
  \<open>{'text': None, 'audio': AudioAbstract(pitch={'mean_f0_hz': 180.0}, cords=5)}\<close>.
\<close>

definition supplied_base :: "(string \<times> abstract option) list" where
  "supplied_base = [(''text'', None), (''audio'', Some baseline_sample)]"

text \<open>
  \<open>AudioAbstract(pitch={'mean_f0_hz': None})\<close>: the pitch mapping the audio analyser
  builds when the mean pitch is NaN.
\<close>

definition unvoiced_sample :: abstract where
  "unvoiced_sample =
     map (\<lambda>f. (f, if f = ''pitch'' then VDict [(''mean_f0_hz'', VNone)] else VNone))
       audio_fields"

text \<open>
  Example environments: one in which no audio file exists, one in which the file
  exists and the signal processing raises, and one in which the sound has a duration of
  zero. In all of them the call of \<open>get_analysis\<close> on the text analyser raises
  AttributeError.
\<close>

definition no_file_env :: "unit env" where
  "no_file_env =
     \<lparr>text_get_analysis = (\<lambda>t. Inl (AttributeError ''get_analysis'')),
      audio = \<lparr>path_exists = (\<lambda>p. False), load_sound = (\<lambda>p. Inr ()),
               dsp_core = (\<lambda>s. Inl (LibraryError ''unreadable'')),
               dsp_intensity = (\<lambda>s. Inl (LibraryError ''unreadable''))\<rparr>,
      float_repr = (\<lambda>q. ''0.0'')\<rparr>"

definition failing_dsp_env :: "unit env" where
  "failing_dsp_env =
     \<lparr>text_get_analysis = (\<lambda>t. Inl (AttributeError ''get_analysis'')),
      audio = \<lparr>path_exists = (\<lambda>p. True), load_sound = (\<lambda>p. Inr ()),
               dsp_core = (\<lambda>s. Inl (LibraryError ''unreadable'')),
               dsp_intensity = (\<lambda>s. Inl (LibraryError ''unreadable''))\<rparr>,
      float_repr = (\<lambda>q. ''0.0'')\<rparr>"



text \<open>
  The deviation prefix of two empty deviation mappings:
  \<open>[DELTA_A: {"text_deviation": {}, "audio_deviation": {}}]\<close>.
\<close>

definition empty_delta_prefix :: string where
  "empty_delta_prefix =
     ''[DELTA_A: {'' @ [CHR 0x22] @ ''text_deviation'' @ [CHR 0x22] @ '': {}, '' @
     [CHR 0x22] @ ''audio_deviation'' @ [CHR 0x22] @ '': {}}]''"

text \<open>
  The text of the scenario, \<open>I'm so tired lol, lol!\<close>, and a text environment whose
  tokenizer gives the tokens NLTK's \<open>word_tokenize\<close> gives for it in lower case (the
  contraction is split before the apostrophe, the punctuation is split off), and no token
  for any other text.
\<close>

definition tired_text :: string where
  "tired_text = ''I'' @ [CHR 0x27] @ ''m so tired lol, lol!''"

definition tired_tokens :: "string list" where
  "tired_tokens = [''i'', [CHR 0x27] @ ''m'', ''so'', ''tired'', ''lol'', '','', ''lol'', ''!'']"

definition tired_env :: text_env where
  "tired_env =
     \<lparr>word_tokenize = (\<lambda>s. if s = py_lower tired_text then tired_tokens else []),
      stop_words = [''i'', ''so''], whitelist_file = None,
      spell_unknown = (\<lambda>ws. []), spell_known = (\<lambda>w. True), fuzz_ratio = (\<lambda>a b. 0)\<rparr>"

section \<open>Properties of the declarations\<close>

text \<open>The declarations of the audio and the video schema are accepted.\<close>

lemma AudioAbstract_type_ok:
  "AudioAbstract_type = Inr \<lparr>nt_fields = audio_fields, nt_defaults = replicate 9 VNone\<rparr>"
  by code_simp

lemma VideoAbstract_type_ok:
  "VideoAbstract_type = Inr \<lparr>nt_fields = [], nt_defaults = []\<rparr>"
  by code_simp

text \<open>
  The declaration of the text schema is refused: its first field name has a hyphen and
  is no identifier.
\<close>

lemma TextAbstract_type_raises: "TextAbstract_type = Inl text_decl_error"
  unfolding text_decl_error_def by code_simp

lemma TextAbstract_raises: "TextAbstract kw = Inl text_decl_error"
  by (simp add: TextAbstract_def TextAbstract_type_raises)

lemma default_base_raises: "default_base = Inl text_decl_error"
  by (simp add: default_base_def TextAbstract_raises)

lemma fill_fields_defaults:
  "fill_fields (map (\<lambda>f. (f, Some VNone)) fs) kw =
     Inr (map (\<lambda>f. (f, case map_of kw f of None \<Rightarrow> VNone | Some v \<Rightarrow> v)) fs)"
  by (induction fs) (auto split: option.splits)

text \<open>The audio constructor: every field has the default None.\<close>

lemma AudioAbstract_eq:
  "AudioAbstract kw =
     (if list_all (\<lambda>k. k \<in> set audio_fields) (map fst kw)
      then Inr (map (\<lambda>f. (f, case map_of kw f of None \<Rightarrow> VNone | Some v \<Rightarrow> v)) audio_fields)
      else Inl TypeError)"
proof -
  have z: "zip audio_fields (replicate (length audio_fields - 9) None @
             replicate 9 (Some VNone)) = map (\<lambda>f. (f, Some VNone)) audio_fields"
    by (simp add: audio_fields_def numeral_eq_Suc)
  show ?thesis
    by (simp add: AudioAbstract_def AudioAbstract_type_ok construct_def z fill_fields_defaults)
qed

lemma AudioAbstract_unset: "AudioAbstract [] = Inr (unset_abstract audio_fields)"
  by (simp add: AudioAbstract_eq unset_abstract_def)

lemma VideoAbstract_unset: "VideoAbstract [] = Inr []"
  by (simp add: VideoAbstract_def VideoAbstract_type_ok construct_def)

section \<open>Properties of the arithmetic\<close>

lemma round_half_even_0 [simp]: "round_half_even 0 = 0"
  by (simp add: round_half_even_def)

lemma round_half_even_neg: "round_half_even (- q) = - round_half_even q"
proof (cases "q \<in> \<int>")
  case True
  then obtain n where "q = of_int n" by (auto elim: Ints_cases)
  then show ?thesis by (simp add: round_half_even_def)
next
  case False
  have ne: "q \<noteq> of_int \<lfloor>q\<rfloor>"
    using False Ints_of_int by metis
  then have fl: "\<lfloor>- q\<rfloor> = - \<lfloor>q\<rfloor> - 1"
    by (simp add: floor_minus ceiling_altdef)
  have "of_int \<lfloor>q\<rfloor> \<le> q" "q < of_int \<lfloor>q\<rfloor> + 1" by linarith+
  with ne have r0: "0 < q - of_int \<lfloor>q\<rfloor>" "q - of_int \<lfloor>q\<rfloor> < 1"
    by linarith+
  show ?thesis
    unfolding round_half_even_def Let_def fl
    using r0 by (auto simp: algebra_simps)
qed

lemma fsub_anti: "fsub g f = fneg (fsub f g)"
  by (cases f; cases g) simp_all

lemma fround_neg: "fround d (fneg f) = fneg (fround d f)"
  by (cases f) (simp_all add: round_half_even_neg)

lemma py_round_neg: "py_round n (py_neg d) = py_neg (py_round n d)"
  by (cases d) (simp_all add: fround_neg)

lemma py_neg_neg: "py_neg (py_neg x) = x"
proof (cases x)
  case (PInt i)
  then show ?thesis by simp
next
  case (PFloat f)
  then show ?thesis by (cases f) simp_all
qed

lemma py_eq_refl: "\<not> is_nan x \<Longrightarrow> py_eq x x"
proof (cases x)
  case (PInt i)
  then show ?thesis by simp
next
  case (PFloat f)
  assume "\<not> is_nan x"
  with PFloat show ?thesis by (cases f) simp_all
qed

text \<open>Swapping the operands of a subtraction that succeeds negates the result.\<close>

lemma py_sub_anti: "py_sub a b = Inr d \<Longrightarrow> py_sub b a = Inr (py_neg d)"
proof (cases a; cases b)
  fix i j assume "a = PInt i" "b = PInt j" "py_sub a b = Inr d"
  then show ?thesis by auto
next
  fix i g assume "a = PInt i" "b = PFloat g" "py_sub a b = Inr d"
  then show ?thesis by (auto split: sum.splits simp: fsub_anti[of g])
next
  fix f j assume "a = PFloat f" "b = PInt j" "py_sub a b = Inr d"
  then show ?thesis by (auto split: sum.splits simp: fsub_anti[of _ f])
next
  fix f g assume "a = PFloat f" "b = PFloat g" "py_sub a b = Inr d"
  then show ?thesis by (auto simp: fsub_anti[of g f])
qed

text \<open>
  A number minus itself never raises; it is zero when the number is finite, and NaN
  when it is an infinity or NaN.
\<close>

lemma py_sub_self_ok:
  "\<exists>d. py_sub x x = Inr d \<and> (finite_num x \<longrightarrow> py_eq (py_round 4 d) (PInt 0)) \<and>
       (\<not> finite_num x \<longrightarrow> py_round 4 d = PFloat NaN)"
proof (cases x)
  case (PInt i)
  then show ?thesis by simp
next
  case (PFloat f)
  then show ?thesis by (cases f) simp_all
qed

lemma py_sub_val_num:
  "py_sub_val a bv = Inr d \<Longrightarrow> \<exists>b. num_of bv = Some b \<and> py_sub a b = Inr d"
  by (cases "num_of bv") (simp_all add: py_sub_val_def)

section \<open>Properties of the differential engine\<close>

subsection \<open>The keys of a result come from the current side\<close>

lemma nested_delta_keys:
  "nested_delta c b = Inr r \<Longrightarrow> k \<in> fst ` set r \<Longrightarrow> k \<in> fst ` set c"
proof (induction c arbitrary: r)
  case Nil
  then show ?case by simp
next
  case (Cons p c)
  obtain k' cv where p: "p = (k', cv)" by (cases p)
  show ?case
  proof (cases "nested_delta c b")
    case (Inl e)
    with Cons.prems(1) show ?thesis unfolding p
      by (simp split: option.splits sum.splits)
  next
    case (Inr rest)
    with Cons.prems(1) have "r = rest \<or> (\<exists>z. r = (k', z) # rest)" unfolding p
      by (auto split: option.splits sum.splits)
    with Cons.prems(2) have "k = k' \<or> k \<in> fst ` set rest" by auto
    with Cons.IH[OF Inr] show ?thesis unfolding p by auto
  qed
qed

lemma delta_loop_keys:
  "delta_loop c b = Inr d \<Longrightarrow> k \<in> fst ` set d \<Longrightarrow> k \<in> fst ` set c"
proof (induction c arbitrary: d)
  case Nil
  then show ?case by simp
next
  case (Cons p c)
  obtain k' cv where p: "p = (k', cv)" by (cases p)
  from Cons.prems(1) obtain bv entry rest where
    "map_of b k' = Some bv" "field_delta cv bv = Inr entry" and rest: "delta_loop c b = Inr rest"
    and d: "d = (case entry of None \<Rightarrow> rest | Some v \<Rightarrow> (k', v) # rest)"
    unfolding p by (auto split: option.splits sum.splits)
  from Cons.prems(2) d have "k = k' \<or> k \<in> fst ` set rest"
    by (cases entry) auto
  with Cons.IH[OF rest] show ?case unfolding p by auto
qed

subsection \<open>What a nested mapping holds for a key\<close>

lemma nested_lookup_conv:
  assumes "distinct (map fst c)" "nested_delta c b = Inr r" "map_of c k = Some cv"
    "num_of cv = Some a" "map_of b k = Some bv"
  shows "\<exists>d. py_sub_val a bv = Inr d \<and> map_of r k = Some (py_round 4 d)"
  using assms
proof (induction c arbitrary: r)
  case Nil
  then show ?case by simp
next
  case (Cons p c)
  obtain k' v' where p: "p = (k', v')" by (cases p)
  from Cons.prems(1) have dc: "distinct (map fst c)" and k'c: "k' \<notin> fst ` set c"
    by (auto simp: p)
  from Cons.prems(2) obtain rest where rest: "nested_delta c b = Inr rest"
    unfolding p by (cases "nested_delta c b") (auto split: option.splits sum.splits)
  show ?case
  proof (cases "k = k'")
    case True
    with Cons.prems(3) have "v' = cv" by (simp add: p)
    with Cons.prems(2,4,5) True rest show ?thesis unfolding p
      by (auto split: sum.splits)
  next
    case False
    with Cons.prems(3) have kc: "map_of c k = Some cv" by (simp add: p)
    from Cons.IH[OF dc rest kc Cons.prems(4,5)]
    obtain d where d: "py_sub_val a bv = Inr d" "map_of rest k = Some (py_round 4 d)" by blast
    from Cons.prems(2) rest have "r = rest \<or> (\<exists>z. r = (k', z) # rest)" unfolding p
      by (auto split: option.splits sum.splits)
    with d False show ?thesis by auto
  qed
qed

lemma nested_lookup:
  assumes "distinct (map fst c)" "nested_delta c b = Inr r" "map_of r k = Some x"
  shows "\<exists>cv a bv d. map_of c k = Some cv \<and> num_of cv = Some a \<and> map_of b k = Some bv \<and>
           py_sub_val a bv = Inr d \<and> x = py_round 4 d"
  using assms
proof (induction c arbitrary: r)
  case Nil
  then show ?case by simp
next
  case (Cons p c)
  obtain k' v' where p: "p = (k', v')" by (cases p)
  from Cons.prems(1) have dc: "distinct (map fst c)" and k'c: "k' \<notin> fst ` set c"
    by (auto simp: p)
  from Cons.prems(2) obtain rest where rest: "nested_delta c b = Inr rest"
    unfolding p by (cases "nested_delta c b") (auto split: option.splits sum.splits)
  have notrest: "map_of rest k' = None"
    using nested_delta_keys[OF rest, of k'] k'c by (auto simp: map_of_eq_None_iff)
  show ?case
  proof (cases "k = k'")
    case True
    from Cons.prems(2) rest
    have "r = rest \<or> (\<exists>a bv d. num_of v' = Some a \<and> map_of b k' = Some bv \<and>
         py_sub_val a bv = Inr d \<and> r = (k', py_round 4 d) # rest)" unfolding p
      by (auto split: option.splits sum.splits)
    with Cons.prems(3) True notrest show ?thesis by (auto simp: p)
  next
    case False
    from Cons.prems(2) rest have "r = rest \<or> (\<exists>z. r = (k', z) # rest)" unfolding p
      by (auto split: option.splits sum.splits)
    with Cons.prems(3) False have "map_of rest k = Some x" by auto
    from Cons.IH[OF dc rest this] False show ?thesis by (auto simp: p)
  qed
qed

text \<open>
  A nested mapping against itself: no error, zero for every finite number, NaN for
  every other number.
\<close>

lemma nested_self:
  assumes "distinct (map fst m)" "set c \<subseteq> set m" "distinct (map fst c)"
  shows "\<exists>r. nested_delta c m = Inr r \<and>
     (\<forall>k v x. (k, v) \<in> set c \<longrightarrow> num_of v = Some x \<longrightarrow>
        (\<exists>z. map_of r k = Some z \<and> (finite_num x \<longrightarrow> py_eq z (PInt 0)) \<and>
             (\<not> finite_num x \<longrightarrow> z = PFloat NaN)))"
  using assms
proof (induction c)
  case Nil
  then show ?case by simp
next
  case (Cons p c)
  obtain k cv where p: "p = (k, cv)" by (cases p)
  from Cons.prems have IHp: "set c \<subseteq> set m" "distinct (map fst c)" and kc: "k \<notin> fst ` set c"
    and km: "map_of m k = Some cv"
    by (auto simp: p)
  from Cons.IH[OF Cons.prems(1) IHp] obtain r where r: "nested_delta c m = Inr r"
    and rp: "\<And>k v x. (k, v) \<in> set c \<Longrightarrow> num_of v = Some x \<Longrightarrow>
        (\<exists>z. map_of r k = Some z \<and> (finite_num x \<longrightarrow> py_eq z (PInt 0)) \<and>
             (\<not> finite_num x \<longrightarrow> z = PFloat NaN))" by blast
  have neq: "k' \<noteq> k" if "(k', v) \<in> set c" for k' v using kc that by force
  show ?case
  proof (cases "num_of cv")
    case None
    then have res: "nested_delta (p # c) m = Inr r" by (simp add: p r)
    show ?thesis unfolding res using rp None by (auto simp: p)
  next
    case (Some x)
    from py_sub_self_ok[of x] obtain d where d: "py_sub x x = Inr d"
      and dz: "finite_num x \<Longrightarrow> py_eq (py_round 4 d) (PInt 0)"
      and dn: "\<not> finite_num x \<Longrightarrow> py_round 4 d = PFloat NaN" by blast
    have res: "nested_delta (p # c) m = Inr ((k, py_round 4 d) # r)"
      by (simp add: p Some km py_sub_val_def d r)
    have hd: "\<exists>z. map_of ((k, py_round 4 d) # r) k' = Some z \<and>
                (finite_num x' \<longrightarrow> py_eq z (PInt 0)) \<and> (\<not> finite_num x' \<longrightarrow> z = PFloat NaN)"
      if "(k', v) \<in> set (p # c)" "num_of v = Some x'" for k' v x'
    proof (cases "(k', v) = p")
      case True
      with that Some p have "k' = k" "x' = x" by auto
      with dz dn show ?thesis by auto
    next
      case False
      with that have in_c: "(k', v) \<in> set c" by auto
      from neq[OF in_c] rp[OF in_c that(2)] show ?thesis by auto
    qed
    show ?thesis unfolding res using hd by blast
  qed
qed

subsection \<open>What a deviation mapping holds for a field\<close>

lemma delta_lookup_conv:
  assumes "distinct (map fst c)" "delta_loop c b = Inr d" "map_of c s = Some cv"
  shows "\<exists>bv e. map_of b s = Some bv \<and> field_delta cv bv = Inr e \<and> map_of d s = e"
  using assms
proof (induction c arbitrary: d)
  case Nil
  then show ?case by simp
next
  case (Cons p c)
  obtain s' v' where p: "p = (s', v')" by (cases p)
  from Cons.prems(1) have dc: "distinct (map fst c)" and s'c: "s' \<notin> fst ` set c"
    by (auto simp: p)
  from Cons.prems(2) obtain bv entry rest where
    bv: "map_of b s' = Some bv" and en: "field_delta v' bv = Inr entry"
    and rest: "delta_loop c b = Inr rest"
    and d: "d = (case entry of None \<Rightarrow> rest | Some v \<Rightarrow> (s', v) # rest)"
    unfolding p by (auto split: option.splits sum.splits)
  have notrest: "map_of rest s' = None"
    using delta_loop_keys[OF rest, of s'] s'c by (auto simp: map_of_eq_None_iff)
  show ?case
  proof (cases "s = s'")
    case True
    with Cons.prems(3) have "v' = cv" by (simp add: p)
    with True bv en d notrest show ?thesis by (cases entry) auto
  next
    case False
    with Cons.prems(3) have "map_of c s = Some cv" by (simp add: p)
    from Cons.IH[OF dc rest this] obtain bv' e where
      "map_of b s = Some bv'" "field_delta cv bv' = Inr e" "map_of rest s = e" by blast
    with d False show ?thesis by (cases entry) auto
  qed
qed

lemma delta_lookup:
  assumes "distinct (map fst c)" "delta_loop c b = Inr d" "map_of d s = Some e"
  shows "\<exists>cv bv. map_of c s = Some cv \<and> map_of b s = Some bv \<and>
           field_delta cv bv = Inr (Some e)"
proof -
  from assms(3) have "s \<in> fst ` set d" by (metis map_of_eq_None_iff option.distinct(1))
  from delta_loop_keys[OF assms(2) this] obtain cv where cv: "map_of c s = Some cv"
    by (metis map_of_eq_None_iff not_Some_eq)
  from delta_lookup_conv[OF assms(1,2) cv] assms(3) cv show ?thesis by auto
qed

text \<open>The loop returns when every field is found in the baseline and no body raises.\<close>

lemma delta_loop_total:
  assumes "\<And>s cv. (s, cv) \<in> set c \<Longrightarrow>
             \<exists>bv e. map_of b s = Some bv \<and> field_delta cv bv = Inr e"
  shows "\<exists>d. delta_loop c b = Inr d"
  using assms
proof (induction c)
  case Nil
  then show ?case by simp
next
  case (Cons p c)
  obtain s v where p: "p = (s, v)" by (cases p)
  from Cons.prems[of s v] obtain bv e where "map_of b s = Some bv" "field_delta v bv = Inr e"
    by (auto simp: p)
  moreover from Cons.IH Cons.prems obtain rest where "delta_loop c b = Inr rest" by auto
  ultimately show ?case by (simp add: p)
qed

subsection \<open>The body of the loop\<close>

lemma wf_abstract_dict:
  "wf_abstract X \<Longrightarrow> (s, VDict m) \<in> set X \<Longrightarrow> distinct (map fst m)"
  unfolding wf_abstract_def list_all_iff by force

lemma field_delta_num:
  "field_delta cv bv = Inr (Some (DNum x)) \<Longrightarrow>
     \<exists>a b d. num_of cv = Some a \<and> num_of bv = Some b \<and> py_sub a b = Inr d \<and>
       x = py_round 4 d"
  unfolding field_delta_def
  by (cases "num_of cv"; cases "num_of bv"; cases "dict_of cv"; cases "dict_of bv")
     (auto split: sum.splits)

lemma field_delta_nested:
  "field_delta cv bv = Inr (Some (DNested m)) \<Longrightarrow>
     \<exists>cm bm. cv = VDict cm \<and> bv = VDict bm \<and> nested_delta cm bm = Inr m"
  unfolding field_delta_def
  by (cases cv; cases bv) (auto split: sum.splits)

lemma field_delta_num_intro:
  "num_of cv = Some a \<Longrightarrow> num_of bv = Some b \<Longrightarrow> py_sub a b = Inr d \<Longrightarrow>
     field_delta cv bv = Inr (Some (DNum (py_round 4 d)))"
  by (simp add: field_delta_def)

lemma field_delta_dict:
  "field_delta (VDict cm) (VDict bm) =
     (case nested_delta cm bm of Inl e \<Rightarrow> Inl e | Inr m \<Rightarrow> Inr (Some (DNested m)))"
  by (simp add: field_delta_def)

lemma field_delta_unset: "field_delta VNone bv = Inr None"
  by (simp add: field_delta_def)

lemma field_delta_self_num:
  assumes "num_of v = Some x"
  shows "\<exists>d. field_delta v v = Inr (Some (DNum (py_round 4 d))) \<and>
           (finite_num x \<longrightarrow> py_eq (py_round 4 d) (PInt 0)) \<and>
           (\<not> finite_num x \<longrightarrow> py_round 4 d = PFloat NaN)"
proof -
  from py_sub_self_ok[of x] obtain d where d: "py_sub x x = Inr d"
    and dz: "finite_num x \<longrightarrow> py_eq (py_round 4 d) (PInt 0)"
    and dn: "\<not> finite_num x \<longrightarrow> py_round 4 d = PFloat NaN" by blast
  from assms d have "field_delta v v = Inr (Some (DNum (py_round 4 d)))"
    by (simp add: field_delta_def)
  with dz dn show ?thesis by blast
qed

lemma field_delta_self_total:
  assumes "\<And>m. v = VDict m \<Longrightarrow> distinct (map fst m)"
  shows "\<exists>e. field_delta v v = Inr e"
proof (cases "num_of v")
  case (Some x)
  with field_delta_self_num[OF Some] show ?thesis by blast
next
  case None
  show ?thesis
  proof (cases "dict_of v")
    case None
    with \<open>num_of v = None\<close> show ?thesis by (simp add: field_delta_def)
  next
    case (Some m)
    then have v: "v = VDict m" by (cases v) simp_all
    from nested_self[OF assms[OF v] subset_refl assms[OF v]]
    show ?thesis unfolding v field_delta_dict by auto
  qed
qed

section \<open>Claims about the differential engine\<close>

text \<open>
  C3. For two nested mappings the engine keeps the keys whose current value is a number
  and that the baseline has, and subtracts without testing the baseline's value. With
  the current pitch mapping \<open>{'mean_f0_hz': 195.5}\<close> and the baseline pitch mapping
  \<open>{'mean_f0_hz': None}\<close> the key is not dropped: the subtraction raises TypeError and
  \<open>compute_delta\<close> returns no mapping.
\<close>

theorem nested_delta_unset_baseline_raises:
  "AudioAbstract [(''pitch'', VDict [(''mean_f0_hz'', VFloat (Fin (391 / 2)))]),
                  (''cords'', VInt 2)] = Inr current_sample \<and>
   AudioAbstract [(''pitch'', VDict [(''mean_f0_hz'', VNone)])] = Inr unvoiced_sample \<and>
   nested_delta [(''mean_f0_hz'', VFloat (Fin (391 / 2)))] [(''mean_f0_hz'', VNone)]
     = Inl TypeError \<and>
   compute_delta (Some current_sample) (Some unvoiced_sample) = Inl TypeError"
  by (simp add: AudioAbstract_eq compute_delta_def current_sample_def
      unvoiced_sample_def audio_fields_def field_delta_def py_sub_val_def)

text \<open>
  C6, as stated, fails on a NaN entry: with the slot \<open>cords\<close> infinite on both sides,
  both deviations are NaN, and NaN is not equal to the negation of NaN.
\<close>

theorem antisymmetry_counterexample:
  "AudioAbstract [(''cords'', VFloat PInf)] = Inr inf_cords \<and>
   compute_delta (Some inf_cords) (Some inf_cords) = Inr [(''cords'', DNum (PFloat NaN))] \<and>
   \<not> py_eq (PFloat NaN) (py_neg (PFloat NaN))"
  by (simp add: AudioAbstract_eq compute_delta_def inf_cords_def
      audio_fields_def field_delta_def)

text \<open>
  C6, amended. Let \<open>A\<close> and \<open>B\<close> be instances of the same modality for which both
  \<open>compute_delta(A, B)\<close> and \<open>compute_delta(B, A)\<close> return. Every number in the first
  mapping, in a slot or under a key of a nested mapping, has the negated number at the
  same place in the second mapping, and the two satisfy \<open>x == -y\<close> unless \<open>x\<close> is NaN.
\<close>

theorem compute_delta_antisymmetric:
  assumes wfA: "wf_abstract A" and wfB: "wf_abstract B" and flds: "map fst A = map fst B"
    and d1: "compute_delta (Some A) (Some B) = Inr d1"
    and d2: "compute_delta (Some B) (Some A) = Inr d2"
  shows "(\<forall>s x. map_of d1 s = Some (DNum x) \<longrightarrow>
            (\<exists>y. map_of d2 s = Some (DNum y) \<and> y = py_neg x \<and>
                 (\<not> is_nan x \<longrightarrow> py_eq x (py_neg y)))) \<and>
         (\<forall>s m1 k x. map_of d1 s = Some (DNested m1) \<longrightarrow> map_of m1 k = Some x \<longrightarrow>
            (\<exists>m2 y. map_of d2 s = Some (DNested m2) \<and> map_of m2 k = Some y \<and> y = py_neg x \<and>
               (\<not> is_nan x \<longrightarrow> py_eq x (py_neg y))))"
proof (cases "A = []")
  case True
  with d1 show ?thesis by (simp add: compute_delta_def)
next
  case False
  with flds have Bne: "B \<noteq> []" by auto
  from d1 False Bne have l1: "delta_loop A B = Inr d1" by (simp add: compute_delta_def)
  from d2 False Bne have l2: "delta_loop B A = Inr d2" by (simp add: compute_delta_def)
  from wfA wfB have dA: "distinct (map fst A)" and dB: "distinct (map fst B)"
    by (simp_all add: wf_abstract_def)
  have swap: "\<exists>e2. field_delta bv cv = Inr e2 \<and> map_of d2 s = e2"
    if "map_of A s = Some cv" "map_of B s = Some bv" for s cv bv
    using delta_lookup_conv[OF dB l2 that(2)] that(1) by auto
  have num: "\<exists>y. map_of d2 s = Some (DNum y) \<and> y = py_neg x \<and>
               (\<not> is_nan x \<longrightarrow> py_eq x (py_neg y))"
    if h: "map_of d1 s = Some (DNum x)" for s x
  proof -
    from delta_lookup[OF dA l1 h] obtain cv bv where
      cv: "map_of A s = Some cv" and bv: "map_of B s = Some bv"
      and fd: "field_delta cv bv = Inr (Some (DNum x))" by blast
    from field_delta_num[OF fd] obtain a b d where
      a: "num_of cv = Some a" and b: "num_of bv = Some b" and s: "py_sub a b = Inr d"
      and x: "x = py_round 4 d" by blast
    from field_delta_num_intro[OF b a py_sub_anti[OF s]] swap[OF cv bv]
    have "map_of d2 s = Some (DNum (py_round 4 (py_neg d)))" by auto
    then show ?thesis using x by (simp add: py_round_neg py_neg_neg py_eq_refl)
  qed
  have nest: "\<exists>m2 y. map_of d2 s = Some (DNested m2) \<and> map_of m2 k = Some y \<and> y = py_neg x \<and>
               (\<not> is_nan x \<longrightarrow> py_eq x (py_neg y))"
    if h: "map_of d1 s = Some (DNested m1)" and hk: "map_of m1 k = Some x" for s m1 k x
  proof -
    from delta_lookup[OF dA l1 h] obtain cv bv where
      cv: "map_of A s = Some cv" and bv: "map_of B s = Some bv"
      and fd: "field_delta cv bv = Inr (Some (DNested m1))" by blast
    from field_delta_nested[OF fd] obtain cm bm where
      cm: "cv = VDict cm" and bm: "bv = VDict bm" and n1: "nested_delta cm bm = Inr m1" by blast
    from cv cm have "(s, VDict cm) \<in> set A" by (auto dest: map_of_SomeD)
    from wf_abstract_dict[OF wfA this] have dcm: "distinct (map fst cm)" .
    from bv bm have "(s, VDict bm) \<in> set B" by (auto dest: map_of_SomeD)
    from wf_abstract_dict[OF wfB this] have dbm: "distinct (map fst bm)" .
    from swap[OF cv bv] obtain m2 where n2: "nested_delta bm cm = Inr m2"
      and m2: "map_of d2 s = Some (DNested m2)"
      unfolding cm bm field_delta_dict by (cases "nested_delta bm cm") auto
    from nested_lookup[OF dcm n1 hk] obtain v a w d where
      v: "map_of cm k = Some v" and a: "num_of v = Some a" and w: "map_of bm k = Some w"
      and s: "py_sub_val a w = Inr d" and x: "x = py_round 4 d" by blast
    from py_sub_val_num[OF s] obtain b where b: "num_of w = Some b" and s': "py_sub a b = Inr d"
      by blast
    from nested_lookup_conv[OF dbm n2 w b v] a py_sub_anti[OF s']
    have "map_of m2 k = Some (py_round 4 (py_neg d))" by (auto simp: py_sub_val_def)
    with m2 x show ?thesis by (simp add: py_round_neg py_neg_neg py_eq_refl)
  qed
  from num nest show ?thesis by blast
qed

theorem compute_delta_antisymmetric_witness:
  "wf_abstract current_sample \<and> wf_abstract baseline_sample \<and>
   map fst current_sample = map fst baseline_sample \<and>
   compute_delta (Some current_sample) (Some baseline_sample) =
     Inr [(''pitch'', DNested [(''mean_f0_hz'', PFloat (Fin (31 / 2)))]),
          (''cords'', DNum (PInt (- 3)))] \<and>
   compute_delta (Some baseline_sample) (Some current_sample) =
     Inr [(''pitch'', DNested [(''mean_f0_hz'', PFloat (Fin (- 31 / 2)))]),
          (''cords'', DNum (PInt 3))] \<and>
   py_eq (PInt (- 3)) (py_neg (PInt 3)) \<and>
   py_eq (PFloat (Fin (31 / 2))) (py_neg (PFloat (Fin (- 31 / 2))))"
proof -
  have h1: "wf_abstract current_sample"
    by (simp add: wf_abstract_def current_sample_def audio_fields_def)
  have h2: "wf_abstract baseline_sample"
    by (simp add: wf_abstract_def baseline_sample_def audio_fields_def)
  have h3: "map fst current_sample = map fst baseline_sample"
    by (simp add: current_sample_def baseline_sample_def)
  have h4: "compute_delta (Some current_sample) (Some baseline_sample) =
     Inr [(''pitch'', DNested [(''mean_f0_hz'', PFloat (Fin (31 / 2)))]),
          (''cords'', DNum (PInt (- 3)))]"
    by (simp add: compute_delta_def current_sample_def baseline_sample_def audio_fields_def
        field_delta_def py_sub_val_def round_half_even_def)
  have h5: "compute_delta (Some baseline_sample) (Some current_sample) =
     Inr [(''pitch'', DNested [(''mean_f0_hz'', PFloat (Fin (- 31 / 2)))]),
          (''cords'', DNum (PInt 3))]"
    by (simp add: compute_delta_def current_sample_def baseline_sample_def audio_fields_def
        field_delta_def py_sub_val_def round_half_even_def)
  from compute_delta_antisymmetric[OF h1 h2 h3 h4 h5] h1 h2 h3 h4 h5
  show ?thesis by simp
qed

text \<open>
  C7, as stated, fails on an infinite slot: \<open>inf - inf\<close> is NaN, so the entry of
  \<open>compute_delta(X, X)\<close> for the numeric slot \<open>cords\<close> is NaN and not zero.
\<close>

theorem self_delta_counterexample:
  "AudioAbstract [(''cords'', VFloat PInf)] = Inr inf_cords \<and>
   num_of (VFloat PInf) = Some (PFloat PInf) \<and>
   map_of inf_cords ''cords'' = Some (VFloat PInf) \<and>
   compute_delta (Some inf_cords) (Some inf_cords) = Inr [(''cords'', DNum (PFloat NaN))] \<and>
   \<not> py_eq (PFloat NaN) (PInt 0)"
  by (simp add: AudioAbstract_eq compute_delta_def inf_cords_def
      audio_fields_def field_delta_def)

text \<open>
  C7, amended. For every instance \<open>X\<close>, \<open>compute_delta(X, X)\<close> returns a mapping. It
  has an entry for every slot that holds a number: zero when the number is finite, NaN
  when it is an infinity or NaN. It has a nested mapping for every slot that holds a
  dict, with an entry for every key of the dict whose value is a number: zero when the
  number is finite, NaN when it is an infinity or NaN.
\<close>

theorem compute_delta_self_zero:
  assumes wf: "wf_abstract X"
  shows "\<exists>d. compute_delta (Some X) (Some X) = Inr d \<and>
     (\<forall>s v x. (s, v) \<in> set X \<longrightarrow> num_of v = Some x \<longrightarrow>
        (\<exists>z. map_of d s = Some (DNum z) \<and> (finite_num x \<longrightarrow> py_eq z (PInt 0)) \<and>
             (\<not> finite_num x \<longrightarrow> z = PFloat NaN))) \<and>
     (\<forall>s m k v x. (s, VDict m) \<in> set X \<longrightarrow> (k, v) \<in> set m \<longrightarrow> num_of v = Some x \<longrightarrow>
        (\<exists>r z. map_of d s = Some (DNested r) \<and> map_of r k = Some z \<and>
               (finite_num x \<longrightarrow> py_eq z (PInt 0)) \<and> (\<not> finite_num x \<longrightarrow> z = PFloat NaN)))"
proof -
  from wf have dX: "distinct (map fst X)" by (simp add: wf_abstract_def)
  have look: "map_of X s = Some v" if "(s, v) \<in> set X" for s v
    using dX that by simp
  have "\<exists>bv e. map_of X s = Some bv \<and> field_delta cv bv = Inr e" if "(s, cv) \<in> set X" for s cv
  proof -
    have "\<exists>e. field_delta cv cv = Inr e"
    proof (rule field_delta_self_total)
      fix m assume "cv = VDict m"
      with that wf show "distinct (map fst m)" by (auto dest: wf_abstract_dict)
    qed
    with look[OF that] show ?thesis by auto
  qed
  from delta_loop_total[of X X, OF this] obtain d where l: "delta_loop X X = Inr d" by blast
  then have cd: "compute_delta (Some X) (Some X) = Inr d"
    by (cases X) (simp_all add: compute_delta_def)
  have entry: "\<exists>e. field_delta v v = Inr e \<and> map_of d s = e" if "(s, v) \<in> set X" for s v
    using delta_lookup_conv[OF dX l look[OF that]] look[OF that] by auto
  have num: "\<exists>z. map_of d s = Some (DNum z) \<and> (finite_num x \<longrightarrow> py_eq z (PInt 0)) \<and>
               (\<not> finite_num x \<longrightarrow> z = PFloat NaN)"
    if "(s, v) \<in> set X" "num_of v = Some x" for s v x
    using entry[OF that(1)] field_delta_self_num[OF that(2)] by auto
  have nest: "\<exists>r z. map_of d s = Some (DNested r) \<and> map_of r k = Some z \<and>
               (finite_num x \<longrightarrow> py_eq z (PInt 0)) \<and> (\<not> finite_num x \<longrightarrow> z = PFloat NaN)"
    if h: "(s, VDict m) \<in> set X" "(k, v) \<in> set m" "num_of v = Some x"
    for s m k v x
  proof -
    from wf_abstract_dict[OF wf h(1)] have dm: "distinct (map fst m)" .
    from nested_self[OF dm subset_refl dm] obtain r where r: "nested_delta m m = Inr r"
      and z: "\<exists>z. map_of r k = Some z \<and> (finite_num x \<longrightarrow> py_eq z (PInt 0)) \<and>
                (\<not> finite_num x \<longrightarrow> z = PFloat NaN)"
      using h(2,3) by blast
    from entry[OF h(1)] r have "map_of d s = Some (DNested r)"
      by (simp add: field_delta_dict)
    with z show ?thesis by blast
  qed
  from cd num nest show ?thesis by blast
qed

theorem compute_delta_self_zero_witness:
  "wf_abstract mixed_sample \<and>
   compute_delta (Some mixed_sample) (Some mixed_sample) =
     Inr [(''pitch'', DNested [(''mean_f0_hz'', PFloat (Fin 0)),
                              (''stdev_f0_hz'', PFloat NaN)]),
          (''cords'', DNum (PInt 0)),
          (''melody'', DNum (PFloat NaN))] \<and>
   py_eq (PInt 0) (PInt 0) \<and> py_eq (PFloat (Fin 0)) (PInt 0) \<and>
   \<not> finite_num (PFloat NInf) \<and> \<not> finite_num (PFloat NaN)"
proof -
  have h1: "wf_abstract mixed_sample"
    by (simp add: wf_abstract_def mixed_sample_def audio_fields_def)
  have h2: "compute_delta (Some mixed_sample) (Some mixed_sample) =
     Inr [(''pitch'', DNested [(''mean_f0_hz'', PFloat (Fin 0)),
                              (''stdev_f0_hz'', PFloat NaN)]),
          (''cords'', DNum (PInt 0)),
          (''melody'', DNum (PFloat NaN))]"
    by (simp add: compute_delta_def mixed_sample_def audio_fields_def
        field_delta_def py_sub_val_def)
  from compute_delta_self_zero[OF h1] h1 h2 show ?thesis by simp
qed

section \<open>Claims about the text analyser\<close>

lemma contraction_not_alnum: "w \<in> set CONTRACTIONS \<Longrightarrow> \<not> py_isalnum w"
  by (auto simp: CONTRACTIONS_def py_isalnum_def is_alnum_ch_def is_alpha_ch_def)

lemma no_contraction_among_words:
  "filter (\<lambda>w. py_isalnum w \<and> w \<in> set CONTRACTIONS) ts = []"
  by (induction ts) (auto dest: contraction_not_alnum)

lemma ratio_0 [simp]: "ratio 0 n = Fin 0"
  by (simp add: ratio_def)

text \<open>
  The contraction rate is zero for every text and every tokenizer: \<open>words\<close> keeps the
  alphanumeric tokens only, and every contraction of the list has an apostrophe.
\<close>

lemma contraction_rate_always_zero:
  "get_contraction_rate (Analyser_init env text) = Fin 0"
  by (simp add: get_contraction_rate_def Analyser_init_def Let_def no_contraction_among_words)

lemma tired_words:
  "words (Analyser_init tired_env tired_text) = [''i'', ''so'', ''tired'', ''lol'', ''lol'']"
  by (simp add: Analyser_init_def tired_env_def tired_tokens_def py_isalnum_def
      is_alnum_ch_def is_alpha_ch_def)

lemma tired_word_count: "word_count (Analyser_init tired_env tired_text) = 5"
  by (simp add: Analyser_init_def tired_env_def tired_tokens_def py_isalnum_def
      is_alnum_ch_def is_alpha_ch_def)

text \<open>
  C4. On the text of the scenario, with the tokens NLTK gives, the analyser has the
  five words \<open>i so tired lol lol\<close>, a vocabulary diversity of 4/5 and a slang rate of
  2/5, as the claim says; the contraction rate is 0, not above 0, since the token
  \<open>'m\<close> is not alphanumeric and \<open>i'm\<close> is no token at all. The rate is 0 for every
  text and tokenizer.
\<close>

theorem tired_text_metrics:
  "words (Analyser_init tired_env tired_text) = [''i'', ''so'', ''tired'', ''lol'', ''lol''] \<and>
   word_count (Analyser_init tired_env tired_text) = 5 \<and>
   get_diversity (Analyser_init tired_env tired_text) = Fin (4 / 5) \<and>
   get_slang_rate (Analyser_init tired_env tired_text) = Fin (2 / 5) \<and>
   get_contraction_rate (Analyser_init tired_env tired_text) = Fin 0 \<and>
   map_of (get_diagnostics tired_env (Analyser_init tired_env tired_text)) ''Contraction-rate''
     = Some (VFloat (Fin 0)) \<and>
   get_contraction_rate (Analyser_init env text) = Fin 0"
proof -
  have d: "get_diversity (Analyser_init tired_env tired_text) = Fin (4 / 5)"
    by (simp add: get_diversity_def tired_words tired_word_count ratio_def)
  have s: "get_slang_rate (Analyser_init tired_env tired_text) = Fin (2 / 5)"
    by (simp add: get_slang_rate_def tired_words tired_word_count ratio_def SLANG_def)
  have g: "map_of (get_diagnostics tired_env (Analyser_init tired_env tired_text))
      ''Contraction-rate'' = Some (VFloat (Fin 0))"
    by (simp add: get_diagnostics_def tired_words contraction_rate_always_zero)
  from d s g show ?thesis
    by (simp add: tired_words tired_word_count contraction_rate_always_zero)
qed

section \<open>Claims about degenerate input\<close>



section \<open>Claims about the token assembler\<close>

lemma json_dumps_empty:
  "json_dumps fr [(''text_deviation'', []), (''audio_deviation'', [])] =
     ''{'' @ [CHR 0x22] @ ''text_deviation'' @ [CHR 0x22] @ '': {}, '' @
     [CHR 0x22] @ ''audio_deviation'' @ [CHR 0x22] @ '': {}}''"
  by (simp add: json_dumps_def json_dict_def json_str_def json_escape_def)

text \<open>
  Step 1 ends with the exception of the text declaration when no baseline or an empty
  one is supplied, and with the supplied baseline otherwise.
\<close>

lemma resolve_base_falsy:
  "resolve_base None = Inl text_decl_error" "resolve_base (Some []) = Inl text_decl_error"
  by (simp_all add: resolve_base_def default_base_raises)

lemma resolve_base_supplied: "b \<noteq> [] \<Longrightarrow> resolve_base (Some b) = Inr b"
  by (simp add: resolve_base_def)

lemma resolve_base_Inr: "resolve_base bp = Inr b \<Longrightarrow> bp = Some b \<and> b \<noteq> []"
  by (cases bp) (auto simp: resolve_base_def default_base_raises split: if_splits)

lemma extract_etoken_falsy_base:
  "extract_etoken env text audio_path video_path None = Inl text_decl_error"
  "extract_etoken env text audio_path video_path (Some []) = Inl text_decl_error"
  by (simp_all add: extract_etoken_def resolve_base_falsy)

lemma current_falsy [simp]:
  "\<not> truthy text \<Longrightarrow> current_text env text = Inr None"
  "\<not> truthy path \<Longrightarrow> current_audio env path = Inr None"
  by (cases "text"; simp add: current_text_def) (cases path; simp add: current_audio_def)

lemma compute_delta_None [simp]: "compute_delta None b = Inr []"
  by (simp add: compute_delta_def)

text \<open>An instance with every slot unset has no deviation from any baseline with its fields.\<close>

lemma delta_loop_unset:
  "set fs \<subseteq> fst ` set B \<Longrightarrow> delta_loop (unset_abstract fs) B = Inr []"
proof (induction fs)
  case Nil
  then show ?case by (simp add: unset_abstract_def)
next
  case (Cons f fs)
  from Cons.prems obtain bv where "map_of B f = Some bv"
    by (cases "map_of B f") (auto simp: map_of_eq_None_iff)
  moreover from Cons have "delta_loop (unset_abstract fs) B = Inr []" by simp
  ultimately show ?case
    by (simp add: unset_abstract_def field_delta_unset)
qed

lemma compute_delta_unset:
  assumes "case b of None \<Rightarrow> True | Some B \<Rightarrow> set fs \<subseteq> fst ` set B"
  shows "compute_delta (Some (unset_abstract fs)) b = Inr []"
proof (cases b)
  case None
  then show ?thesis by (simp add: compute_delta_def)
next
  case (Some B)
  with assms have "set fs \<subseteq> fst ` set B" by simp
  from delta_loop_unset[OF this] Some show ?thesis
    by (simp add: compute_delta_def)
qed

text \<open>The audio instance built from the error mapping.\<close>

lemma current_audio_error_mapping:
  assumes "p \<noteq> []" and "AudioAnalyser_init (audio env) p = Inr an"
    and "get_analysis (audio env) an = [(''error'', VStr msg)]"
  shows "current_audio env (Some p) = Inr (Some (unset_abstract audio_fields))"
  using assms
  by (simp add: current_audio_def audio_fields_def AudioAbstract_unset[unfolded audio_fields_def])

text \<open>What a returned token is made of.\<close>

lemma extract_etoken_Inr:
  assumes "extract_etoken env text audio_path video_path base_profiles = Inr tok"
  shows "\<exists>b ct ca bt td ba ad.
     base_profiles = Some b \<and> b \<noteq> [] \<and>
     current_text env text = Inr ct \<and> current_audio env audio_path = Inr ca \<and>
     dict_get b ''text'' = Inr bt \<and> compute_delta ct bt = Inr td \<and>
     dict_get b ''audio'' = Inr ba \<and> compute_delta ca ba = Inr ad \<and>
     tok = \<lparr>logical_schema = (case text of None \<Rightarrow> [] | Some t \<Rightarrow> t),
            emotion_schema =
              ''[DELTA_A: '' @
              json_dumps (float_repr env) [(''text_deviation'', td), (''audio_deviation'', ad)] @
              '']'' @ (case text of None \<Rightarrow> [] | Some t \<Rightarrow> if t = [] then [] else '' '' @ t),
            base_abstract = b,
            current_abstract = [(''text'', ct), (''audio'', ca)]\<rparr>"
proof -
  from assms obtain b where rb: "resolve_base base_profiles = Inr b"
    by (cases "resolve_base base_profiles") (simp_all add: extract_etoken_def)
  from resolve_base_Inr[OF rb] have bp: "base_profiles = Some b" "b \<noteq> []" by simp_all
  from assms rb obtain ct where ct: "current_text env text = Inr ct"
    by (cases "current_text env text") (simp_all add: extract_etoken_def)
  from assms rb ct obtain ca where ca: "current_audio env audio_path = Inr ca"
    by (cases "current_audio env audio_path") (simp_all add: extract_etoken_def)
  from assms rb ct ca obtain bt where bt: "dict_get b ''text'' = Inr bt"
    by (cases "dict_get b ''text''") (simp_all add: extract_etoken_def)
  from assms rb ct ca bt obtain td where td: "compute_delta ct bt = Inr td"
    by (cases "compute_delta ct bt") (simp_all add: extract_etoken_def)
  from assms rb ct ca bt td obtain ba where ba: "dict_get b ''audio'' = Inr ba"
    by (cases "dict_get b ''audio''") (simp_all add: extract_etoken_def)
  from assms rb ct ca bt td ba obtain ad where ad: "compute_delta ca ba = Inr ad"
    by (cases "compute_delta ca ba") (simp_all add: extract_etoken_def)
  from assms rb ct ca bt td ba ad have
    "tok = \<lparr>logical_schema = (case text of None \<Rightarrow> [] | Some t \<Rightarrow> t),
            emotion_schema =
              ''[DELTA_A: '' @
              json_dumps (float_repr env) [(''text_deviation'', td), (''audio_deviation'', ad)] @
              '']'' @ (case text of None \<Rightarrow> [] | Some t \<Rightarrow> if t = [] then [] else '' '' @ t),
            base_abstract = b,
            current_abstract = [(''text'', ct), (''audio'', ca)]\<rparr>"
    by (cases "text") (auto simp: extract_etoken_def)
  with bp ct ca bt td ba ad show ?thesis by blast
qed

text \<open>
  C1. With an audio path that names no file the constructor of the audio analyser
  raises FileNotFoundError before \<open>get_analysis\<close> and its \<open>try\<close> are reached, and
  \<open>extract_etoken\<close> has no handler: with a supplied baseline and no text the call ends
  with that exception, and with any arguments it ends with an exception; no Token is
  returned.
\<close>

theorem missing_audio_file_raises:
  assumes "\<not> path_exists (audio env) p" and "p \<noteq> []"
  shows "AudioAnalyser_init (audio env) p =
           Inl (FileNotFoundError (''Source signal not found at '' @ p)) \<and>
         (b \<noteq> [] \<longrightarrow>
            extract_etoken env None (Some p) video_path (Some b) =
              Inl (FileNotFoundError (''Source signal not found at '' @ p))) \<and>
         (\<exists>e. extract_etoken env text (Some p) video_path base_profiles = Inl e)"
proof -
  from assms have i: "AudioAnalyser_init (audio env) p =
      Inl (FileNotFoundError (''Source signal not found at '' @ p))"
    by (simp add: AudioAnalyser_init_def)
  with assms have a: "current_audio env (Some p) =
      Inl (FileNotFoundError (''Source signal not found at '' @ p))"
    by (simp add: current_audio_def)
  have n: "extract_etoken env None (Some p) video_path (Some b) =
      Inl (FileNotFoundError (''Source signal not found at '' @ p))" if "b \<noteq> []"
    using that by (simp add: extract_etoken_def resolve_base_supplied a current_text_def)
  have "\<exists>e. extract_etoken env text (Some p) video_path base_profiles = Inl e"
  proof (cases "extract_etoken env text (Some p) video_path base_profiles")
    case (Inl e)
    then show ?thesis by blast
  next
    case (Inr tok)
    from extract_etoken_Inr[OF Inr] a show ?thesis by auto
  qed
  with i n show ?thesis by blast
qed

theorem missing_audio_file_raises_witness:
  "\<not> path_exists (audio no_file_env) ''missing.wav'' \<and>
   extract_etoken no_file_env None (Some ''missing.wav'') None (Some supplied_base) =
     Inl (FileNotFoundError ''Source signal not found at missing.wav'') \<and>
   extract_etoken no_file_env (Some ''hello'') (Some ''missing.wav'') None (Some supplied_base) =
     Inl (AttributeError ''get_analysis'')"
proof -
  have h: "\<not> path_exists (audio no_file_env) ''missing.wav''"
    by (simp add: no_file_env_def)
  have b: "supplied_base \<noteq> []" by (simp add: supplied_base_def)
  have t: "extract_etoken no_file_env (Some ''hello'') (Some ''missing.wav'') None
      (Some supplied_base) = Inl (AttributeError ''get_analysis'')"
    by (simp add: extract_etoken_def resolve_base_supplied[OF b] current_text_def no_file_env_def)
  from missing_audio_file_raises[OF h, of supplied_base None "Some ''hello''" None] h b t
  show ?thesis by simp
qed




text \<open>
  C8. Called with no text, no audio and no baseline, \<open>extract_etoken\<close> returns no
  Token: the default baseline needs \<open>Abstracts.TextAbstract()\<close>, and the declaration of
  \<open>TextAbstract\<close> is refused with ValueError. With a supplied baseline that has the
  entries \<open>text\<close> and \<open>audio\<close> the Token of the claim is returned (empty logical
  schema, the bare deviation prefix, no current instance); a supplied baseline without
  one of the entries ends in KeyError. Whenever a Token is returned, it is the one of the
  claim.
\<close>

theorem no_input_default_baseline_raises:
  assumes "\<not> truthy text" and "\<not> truthy audio_path"
  shows "TextAbstract [] = Inl text_decl_error \<and>
         extract_etoken env text audio_path video_path None = Inl text_decl_error \<and>
         (b \<noteq> [] \<and> map_of b ''text'' \<noteq> None \<and> map_of b ''audio'' \<noteq> None \<longrightarrow>
            extract_etoken env text audio_path video_path (Some b) =
              Inr \<lparr>logical_schema = [], emotion_schema = empty_delta_prefix,
                   base_abstract = b,
                   current_abstract = [(''text'', None), (''audio'', None)]\<rparr>) \<and>
         (b \<noteq> [] \<and> map_of b ''text'' = None \<longrightarrow>
            extract_etoken env text audio_path video_path (Some b) = Inl (KeyError ''text'')) \<and>
         (b \<noteq> [] \<and> map_of b ''text'' \<noteq> None \<and> map_of b ''audio'' = None \<longrightarrow>
            extract_etoken env text audio_path video_path (Some b) = Inl (KeyError ''audio'')) \<and>
         (\<forall>tok. extract_etoken env text audio_path video_path base_profiles = Inr tok \<longrightarrow>
            logical_schema tok = [] \<and> emotion_schema tok = empty_delta_prefix \<and>
            current_abstract tok = [(''text'', None), (''audio'', None)])"
proof -
  from assms(1) have lg: "(case text of None \<Rightarrow> [] | Some t \<Rightarrow> t) = []"
    and sf: "(case text of None \<Rightarrow> [] | Some t \<Rightarrow> if t = [] then [] else '' '' @ t) = []"
    by (cases "text"; simp)+
  from assms(1) have em:
    "(case text of None \<Rightarrow> x | Some t \<Rightarrow> if t = [] then x else x @ '' '' @ t) = x"
    for x :: string
    by (cases "text"; simp)
  have ok: "extract_etoken env text audio_path video_path (Some b) =
              Inr \<lparr>logical_schema = [], emotion_schema = empty_delta_prefix,
                   base_abstract = b,
                   current_abstract = [(''text'', None), (''audio'', None)]\<rparr>"
    if "b \<noteq> []" "map_of b ''text'' \<noteq> None" "map_of b ''audio'' \<noteq> None"
  proof -
    from that obtain bt ba where
      "dict_get b ''text'' = Inr bt" "dict_get b ''audio'' = Inr ba"
      by (auto simp: dict_get_def)
    with assms show ?thesis
      by (simp add: extract_etoken_def resolve_base_supplied[OF that(1)] lg em
          json_dumps_empty empty_delta_prefix_def)
  qed
  have k1: "extract_etoken env text audio_path video_path (Some b) = Inl (KeyError ''text'')"
    if "b \<noteq> []" "map_of b ''text'' = None"
    using that(2) assms
    by (simp add: extract_etoken_def resolve_base_supplied[OF that(1)] dict_get_def)
  have k2: "extract_etoken env text audio_path video_path (Some b) = Inl (KeyError ''audio'')"
    if "b \<noteq> []" "map_of b ''text'' \<noteq> None" "map_of b ''audio'' = None"
  proof -
    from that(2) obtain bt where "dict_get b ''text'' = Inr bt" by (auto simp: dict_get_def)
    with that(3) assms show ?thesis
      by (simp add: extract_etoken_def resolve_base_supplied[OF that(1)] dict_get_def)
  qed
  have ret: "logical_schema tok = [] \<and> emotion_schema tok = empty_delta_prefix \<and>
            current_abstract tok = [(''text'', None), (''audio'', None)]"
    if "extract_etoken env text audio_path video_path base_profiles = Inr tok" for tok
    using extract_etoken_Inr[OF that] assms
    by (auto simp: lg sf json_dumps_empty empty_delta_prefix_def)
  from TextAbstract_raises[of "[]"] extract_etoken_falsy_base(1) ok k1 k2 ret
  show ?thesis by blast
qed

theorem no_input_default_baseline_raises_witness:
  "\<not> truthy None \<and> \<not> truthy (Some []) \<and>
   extract_etoken no_file_env None (Some []) None None = Inl text_decl_error \<and>
   extract_etoken no_file_env None (Some []) None (Some supplied_base) =
     Inr \<lparr>logical_schema = [], emotion_schema = empty_delta_prefix,
          base_abstract = supplied_base,
          current_abstract = [(''text'', None), (''audio'', None)]\<rparr> \<and>
   extract_etoken no_file_env None (Some []) None (Some [(''text'', None)]) =
     Inl (KeyError ''audio'')"
proof -
  have h1: "\<not> truthy None" by simp
  have h2: "\<not> truthy (Some [])" by simp
  have b: "supplied_base \<noteq> []" "map_of supplied_base ''text'' \<noteq> None"
    "map_of supplied_base ''audio'' \<noteq> None"
    by (simp_all add: supplied_base_def)
  from no_input_default_baseline_raises[OF h1 h2, of no_file_env None supplied_base None]
    no_input_default_baseline_raises[OF h1 h2, of no_file_env None "[(''text'', None)]" None]
    h1 h2 b
  show ?thesis by simp
qed

text \<open>
  C9. The result of \<open>extract_etoken\<close> does not depend on \<open>video_path\<close>. Every returned
  Token has exactly the keys \<open>text\<close> and \<open>audio\<close> in its current abstract, and its
  emotion schema starts with the serialisation of a mapping with exactly the keys
  \<open>text_deviation\<close> and \<open>audio_deviation\<close>.
\<close>

theorem video_path_ignored:
  "extract_etoken env text audio_path v1 base_profiles =
     extract_etoken env text audio_path v2 base_profiles \<and>
   (\<forall>tok. extract_etoken env text audio_path v1 base_profiles = Inr tok \<longrightarrow>
      map fst (current_abstract tok) = [''text'', ''audio''] \<and>
      (\<exists>td ad. emotion_schema tok =
         ''[DELTA_A: '' @
         json_dumps (float_repr env) [(''text_deviation'', td), (''audio_deviation'', ad)] @
         '']'' @ (case text of None \<Rightarrow> [] | Some t \<Rightarrow> if t = [] then [] else '' '' @ t)))"
proof -
  have eq: "extract_etoken env text audio_path v1 base_profiles =
     extract_etoken env text audio_path v2 base_profiles"
    by (simp add: extract_etoken_def)
  have ret: "map fst (current_abstract tok) = [''text'', ''audio''] \<and>
      (\<exists>td ad. emotion_schema tok =
         ''[DELTA_A: '' @
         json_dumps (float_repr env) [(''text_deviation'', td), (''audio_deviation'', ad)] @
         '']'' @ (case text of None \<Rightarrow> [] | Some t \<Rightarrow> if t = [] then [] else '' '' @ t))"
    if "extract_etoken env text audio_path v1 base_profiles = Inr tok" for tok
  proof -
    from extract_etoken_Inr[OF that] obtain b ct ca td ad where
      tok: "tok = \<lparr>logical_schema = (case text of None \<Rightarrow> [] | Some t \<Rightarrow> t),
            emotion_schema =
              ''[DELTA_A: '' @
              json_dumps (float_repr env) [(''text_deviation'', td), (''audio_deviation'', ad)] @
              '']'' @ (case text of None \<Rightarrow> [] | Some t \<Rightarrow> if t = [] then [] else '' '' @ t),
            base_abstract = b,
            current_abstract = [(''text'', ct), (''audio'', ca)]\<rparr>" by blast
    have "map fst (current_abstract tok) = [''text'', ''audio'']" by (simp add: tok)
    moreover have "emotion_schema tok =
         ''[DELTA_A: '' @
         json_dumps (float_repr env) [(''text_deviation'', td), (''audio_deviation'', ad)] @
         '']'' @ (case text of None \<Rightarrow> [] | Some t \<Rightarrow> if t = [] then [] else '' '' @ t)"
      by (simp add: tok)
    ultimately show ?thesis by blast
  qed
  from eq ret show ?thesis by blast
qed

theorem video_path_ignored_witness:
  "extract_etoken failing_dsp_env None (Some ''clip.wav'') (Some ''clip.mp4'')
       (Some supplied_base) =
     extract_etoken failing_dsp_env None (Some ''clip.wav'') None (Some supplied_base) \<and>
   extract_etoken failing_dsp_env None (Some ''clip.wav'') (Some ''clip.mp4'')
       (Some supplied_base) =
     Inr \<lparr>logical_schema = [], emotion_schema = empty_delta_prefix,
          base_abstract = supplied_base,
          current_abstract = [(''text'', None),
                              (''audio'', Some (unset_abstract audio_fields))]\<rparr> \<and>
   map fst [(''text'', None :: abstract option),
            (''audio'', Some (unset_abstract audio_fields))] = [''text'', ''audio'']"
proof -
  have n: "''clip.wav'' \<noteq> []" by simp
  have i: "AudioAnalyser_init (audio failing_dsp_env) ''clip.wav'' =
     Inr \<lparr>source_path = ''clip.wav'', sound = ()\<rparr>"
    by (simp add: AudioAnalyser_init_def failing_dsp_env_def)
  have g: "get_analysis (audio failing_dsp_env) \<lparr>source_path = ''clip.wav'', sound = ()\<rparr> =
     [(''error'', VStr ''unreadable'')]"
    by (simp add: get_analysis_def analysis_body_def failing_dsp_env_def)
  note a = current_audio_error_mapping[OF n i g]
  have b: "supplied_base \<noteq> []" by (simp add: supplied_base_def)
  have tx: "dict_get supplied_base ''text'' = Inr None"
    and au: "dict_get supplied_base ''audio'' = Inr (Some baseline_sample)"
    by (simp_all add: dict_get_def supplied_base_def)
  have d: "compute_delta (Some (unset_abstract audio_fields)) (Some baseline_sample) = Inr []"
    by (rule compute_delta_unset) (simp add: baseline_sample_def audio_fields_def)
  have t: "extract_etoken failing_dsp_env None (Some ''clip.wav'') (Some ''clip.mp4'')
       (Some supplied_base) =
     Inr \<lparr>logical_schema = [], emotion_schema = empty_delta_prefix,
          base_abstract = supplied_base,
          current_abstract = [(''text'', None),
                              (''audio'', Some (unset_abstract audio_fields))]\<rparr>"
    by (simp add: extract_etoken_def resolve_base_supplied[OF b] a current_text_def
        tx au d json_dumps_empty empty_delta_prefix_def)
  from video_path_ignored[of failing_dsp_env None "Some ''clip.wav''" "Some ''clip.mp4''"
      "Some supplied_base" None] t
  show ?thesis by simp
qed

text \<open>
  C10. An empty baseline mapping is treated as an absent one: in both cases step 1
  builds the default baseline, and the two calls have the same result. The default
  baseline is not obtained, though: its first value is \<open>Abstracts.TextAbstract()\<close>, the
  declaration of \<open>TextAbstract\<close> is refused with ValueError, and both calls end with that
  exception. The audio and the video instance of the default baseline are built with
  every slot unset.
\<close>

theorem empty_base_default_raises:
  "extract_etoken env text audio_path video_path (Some []) =
     extract_etoken env text audio_path video_path None \<and>
   resolve_base (Some []) = resolve_base None \<and>
   resolve_base (Some []) = default_base \<and>
   default_base = Inl text_decl_error \<and>
   extract_etoken env text audio_path video_path (Some []) = Inl text_decl_error \<and>
   TextAbstract [] = Inl text_decl_error \<and>
   AudioAbstract [] = Inr (unset_abstract audio_fields) \<and>
   VideoAbstract [] = Inr (unset_abstract video_fields)"
  by (simp add: extract_etoken_falsy_base resolve_base_falsy default_base_raises
      TextAbstract_raises AudioAbstract_unset VideoAbstract_unset unset_abstract_def
      video_fields_def)

end
